theory Spec2Isabelle
  imports Complex_Main "HOL-Library.Multiset"
begin

section \<open>Common conventions\<close>

text \<open>
  Python floats are modelled as real numbers with exact arithmetic: rounding error and
  overflow of IEEE doubles are outside the model. What Python does beyond arithmetic is
  written out: an exception is a value of \<open>py_error\<close> on the left of a sum, and a
  missing (NaN) observation of a price series is \<open>None\<close>.
\<close>

datatype py_error = ZeroDivisionError | ValueError | KeyError | TypeError | OSError | OtherError

text \<open>
  \<open>a / b\<close> on two Python floats raises \<open>ZeroDivisionError\<close> when \<open>b\<close> is zero, whatever
  \<open>a\<close> is.
\<close>

definition py_truediv :: "real \<Rightarrow> real \<Rightarrow> py_error + real" where
  "py_truediv a b = (if b = 0 then Inl ZeroDivisionError else Inr (a / b))"

section \<open>stockprice.py: the metric calculation\<close>

text \<open>A row of the portfolio CSV (columns ticker, shares_held, avg_cost_usd).\<close>

record position =
  ticker :: string
  shares_held :: real
  avg_cost_usd :: real

text \<open>
  An entry of \<open>market_data\<close>, the dictionary with the keys \<open>current_price_usd\<close> and
  \<open>prev_close_usd\<close> that \<open>fetch_stock_data\<close> builds; both values are Python floats (the
  results of \<open>float(...)\<close>). The calculation below is modelled on quotes whose values
  are numbers (\<open>real quote\<close>); the fetch stores what \<open>float\<close> gives, which can be NaN
  (\<open>real option quote\<close>).
\<close>

record 'v quote =
  current_price_usd :: 'v
  prev_close_usd :: 'v

text \<open>
  One dictionary appended to \<open>results\<close>; the fields are the columns
  Ticker, Shares, Avg Cost (USD), Current Price (USD), Prev Close (USD), Daily Change (%),
  Daily Change (INR), Investment (USD), Current Value (USD), Investment (INR),
  Current Value (INR), Gain/Loss (USD), Gain/Loss (INR), in this order.
\<close>

record metrics =
  m_ticker :: string
  m_shares :: real
  m_avg_cost_usd :: real
  m_current_price_usd :: real
  m_prev_close_usd :: real
  daily_change_pct :: real
  daily_change_inr :: real
  investment_usd :: real
  current_value_usd :: real
  investment_inr :: real
  current_value_inr :: real
  gain_loss_usd :: real
  gain_loss_inr :: real

text \<open>
  The body of the loop of \<open>analyze_portfolio\<close> for a row whose ticker is in
  \<open>market_data\<close> (lines 181-215). The only operation that can raise is the division by
  \<open>prev_close_usd\<close>.
\<close>

definition analyze_row :: "position \<Rightarrow> real quote \<Rightarrow> real \<Rightarrow> py_error + metrics" where
  "analyze_row row q exchange_rate =
    (let shares = shares_held row;
         avg_cost = avg_cost_usd row;
         current_price = current_price_usd q;
         prev_close = prev_close_usd q;
         daily_change_usd = current_price - prev_close
     in case py_truediv daily_change_usd prev_close of
          Inl e \<Rightarrow> Inl e
        | Inr ratio \<Rightarrow>
           (let daily_percent_change = ratio * 100;
                current_value = current_price * shares;
                current_value_i = current_value * exchange_rate;
                total_investment_usd = avg_cost * shares;
                total_investment_inr = total_investment_usd * exchange_rate;
                total_gain_loss_usd = current_value - total_investment_usd;
                total_gain_loss_inr = total_gain_loss_usd * exchange_rate;
                daily_change_i = (daily_change_usd * shares) * exchange_rate
            in Inr \<lparr> m_ticker = ticker row,
                     m_shares = shares,
                     m_avg_cost_usd = avg_cost,
                     m_current_price_usd = current_price,
                     m_prev_close_usd = prev_close,
                     daily_change_pct = daily_percent_change,
                     daily_change_inr = daily_change_i,
                     investment_usd = total_investment_usd,
                     current_value_usd = current_value,
                     investment_inr = total_investment_inr,
                     current_value_inr = current_value_i,
                     gain_loss_usd = total_gain_loss_usd,
                     gain_loss_inr = total_gain_loss_inr \<rparr>))"

text \<open>
  The loop over the rows of \<open>portfolio_df\<close>, with the list \<open>results\<close> as accumulator.
  A row whose ticker is not a key of \<open>market_data\<close> is skipped; an exception leaves the
  loop and the function.
\<close>

fun analyze_loop ::
  "position list \<Rightarrow> (string \<rightharpoonup> real quote) \<Rightarrow> real \<Rightarrow> metrics list \<Rightarrow> py_error + metrics list"
where
  "analyze_loop [] market_data exchange_rate results = Inr results"
| "analyze_loop (row # rest) market_data exchange_rate results =
    (case market_data (ticker row) of
       None \<Rightarrow> analyze_loop rest market_data exchange_rate results
     | Some q \<Rightarrow>
        (case analyze_row row q exchange_rate of
           Inl e \<Rightarrow> Inl e
         | Inr m \<Rightarrow> analyze_loop rest market_data exchange_rate (results @ [m])))"

definition analyze_portfolio ::
  "position list \<Rightarrow> (string \<rightharpoonup> real quote) \<Rightarrow> real \<Rightarrow> py_error + metrics list"
where
  "analyze_portfolio portfolio_df market_data exchange_rate =
     analyze_loop portfolio_df market_data exchange_rate []"

section \<open>stockprice.py: totals and shares of the report\<close>

text \<open>\<open>summary_df[col].sum()\<close>: the sum of a column of the table.\<close>

definition column_sum :: "('r \<Rightarrow> real) \<Rightarrow> 'r list \<Rightarrow> real" where
  "column_sum col df = sum_list (map col df)"

text \<open>
  The portfolio return of \<open>create_excel_report\<close> (lines 223-226): the quotient is taken
  only when the total investment is positive, and the number 0 is reported otherwise.
\<close>

definition total_gain_loss_pct :: "metrics list \<Rightarrow> real" where
  "total_gain_loss_pct summary_df =
    (let total_investment_usd = column_sum investment_usd summary_df;
         total_gain_loss_usd = column_sum gain_loss_usd summary_df
     in if total_investment_usd > 0
        then total_gain_loss_usd / total_investment_usd * 100 else 0)"

text \<open>
  The portfolio return as the specification words it, for comparison with the code:
  undefined (\<open>None\<close>) when the total investment is 0, the quotient times 100 otherwise.
\<close>

definition spec_portfolio_return_pct :: "real \<Rightarrow> real \<Rightarrow> real option" where
  "spec_portfolio_return_pct total_gain_loss total_investment =
    (if total_investment = 0 then None
     else Some (total_gain_loss / total_investment * 100))"




section \<open>stockprice.py: the suggestion engine\<close>

text \<open>
  \<open>sort_values(by=col, ascending=...)\<close>. A descending sort reverses the rows, sorts
  them ascending and reverses the result, as pandas does. Rows with equal keys are kept
  in the order of a stable sort; pandas' default sort kind does not fix that order, and
  no statement below depends on it.
\<close>

definition sort_values :: "('r \<Rightarrow> real) \<Rightarrow> bool \<Rightarrow> 'r list \<Rightarrow> 'r list" where
  "sort_values col ascending df =
    (if ascending then sort_key col df else rev (sort_key col (rev df)))"

text \<open>The lines that \<open>generate_suggestions\<close> prints, one constructor for each \<open>print\<close>.\<close>

datatype line =
    Title
  | VolatileCaution
  | VolatileTip
  | StableNotice
  | BookProfitHeader
  | BookProfit string real real
  | BuyMoreHeader
  | BuyMore string real real

definition profit_targets :: "metrics list \<Rightarrow> metrics list" where
  "profit_targets summary_df =
     sort_values daily_change_pct False
       (filter (\<lambda>row. gain_loss_inr row > 50000 \<and> daily_change_pct row > 2.0) summary_df)"

definition buy_targets :: "metrics list \<Rightarrow> metrics list" where
  "buy_targets summary_df =
     sort_values daily_change_pct True
       (filter (\<lambda>row. gain_loss_inr row < 0 \<and> daily_change_pct row < - 1.0) summary_df)"

text \<open>\<open>df.head(n)\<close> is the first \<open>n\<close> rows.\<close>

definition head :: "nat \<Rightarrow> 'r list \<Rightarrow> 'r list" where
  "head n df = take n df"

definition book_profit_line :: "metrics \<Rightarrow> line" where
  "book_profit_line row = BookProfit (m_ticker row) (daily_change_pct row) (gain_loss_inr row)"

definition buy_more_line :: "metrics \<Rightarrow> line" where
  "buy_more_line row = BuyMore (m_ticker row) (daily_change_pct row) \<bar>gain_loss_inr row\<bar>"

definition generate_suggestions :: "metrics list \<Rightarrow> line list" where
  "generate_suggestions summary_df =
    (let total_daily_change_inr = column_sum daily_change_inr summary_df
     in [Title]
        @ (if total_daily_change_inr < - 1000 then [VolatileCaution, VolatileTip]
           else [StableNotice])
        @ (if profit_targets summary_df \<noteq> []
           then BookProfitHeader # map book_profit_line (head 3 (profit_targets summary_df))
           else [])
        @ (if buy_targets summary_df \<noteq> []
           then BuyMoreHeader # map buy_more_line (head 3 (buy_targets summary_df))
           else []))"

fun is_book_profit :: "line \<Rightarrow> bool" where
  "is_book_profit (BookProfit t p g) = True"
| "is_book_profit other = False"

fun is_buy_more :: "line \<Rightarrow> bool" where
  "is_buy_more (BuyMore t p g) = True"
| "is_buy_more other = False"

section \<open>Transfers.py: the historical rate fetch\<close>

text \<open>
  A calendar date is its day number. The data source is outside the program:
  \<open>history attempt start end\<close> is what \<open>yf.Ticker("USDINR=X").history(start, end)\<close>
  answers on the given attempt, either an exception (raised by the call or while the
  index is made timezone-naive) or the rows of \<open>hist\<close>, each a date of the index with
  its Close value, in the order of the table. A Close value is a float, which can be
  NaN (\<open>None\<close>); nothing keeps a table from holding a date twice.
\<close>

datatype history_result = HistoryRaises | History "(int \<times> real option) list"

text \<open>
  What the function returns: a float (\<open>None\<close> is NaN), or a pandas Series of floats,
  which is what \<open>hist.loc[target_date, 'Close']\<close> is when the index holds the target
  date more than once.
\<close>

datatype rate_value = Float "real option" | RateSeries "real option list"

text \<open>
  \<open>round(x, ndigits)\<close> on a float: the nearest multiple of \<open>10\<^sup>-\<^sup>n\<close>, a tie going to
  the even one.
\<close>

definition round_half_even :: "real \<Rightarrow> int" where
  "round_half_even x =
    (let f = \<lfloor>x\<rfloor>
     in if x - of_int f < 1 / 2 then f
        else if x - of_int f > 1 / 2 then f + 1
        else if even f then f else f + 1)"

definition py_round :: "real \<Rightarrow> nat \<Rightarrow> real" where
  "py_round x ndigits = of_int (round_half_even (x * 10 ^ ndigits)) / 10 ^ ndigits"

definition max_retries :: nat where
  "max_retries = 3"

definition fallback_rate :: real where
  "fallback_rate = 83.0"

text \<open>\<open>round\<close> of a float that can be NaN: NaN stays NaN.\<close>

definition round_float :: "real option \<Rightarrow> nat \<Rightarrow> real option" where
  "round_float rate ndigits = map_option (\<lambda>x. py_round x ndigits) rate"

text \<open>
  The body of the \<open>try\<close> of one attempt (lines 23-60). \<open>parse\<close> stands for
  \<open>datetime.strptime(date_str, '%Y-%m-%d')\<close> and \<open>pd.Timestamp(date_str)\<close>, which give
  the same date or raise (\<open>None\<close>). \<open>Inl\<close> is an exception raised inside the \<open>try\<close>.
  \<open>at_target\<close> are the rows whose index is the target date: \<open>target_date in hist.index\<close>
  says there is one, and \<open>hist.loc[target_date, 'Close']\<close> is the close of the row when
  there is exactly one and the Series of their closes when there are more; \<open>round\<close> of
  a Series rounds each of its values.
\<close>

definition attempt_body ::
  "(nat \<Rightarrow> int \<Rightarrow> int \<Rightarrow> history_result) \<Rightarrow> (string \<Rightarrow> int option) \<Rightarrow> string \<Rightarrow> nat
    \<Rightarrow> py_error + rate_value"
where
  "attempt_body history parse date_str attempt =
    (case parse date_str of
       None \<Rightarrow> Inl ValueError
     | Some date_obj \<Rightarrow>
        (let start_date = date_obj - 5;
             end_date = date_obj + 1
         in case history attempt start_date end_date of
              HistoryRaises \<Rightarrow> Inl OtherError
            | History hist \<Rightarrow>
               if hist \<noteq> [] then
                 (let target_date = date_obj;
                      at_target = filter (\<lambda>(d, c). d = target_date) hist
                  in if at_target \<noteq> [] then
                       (if length at_target = 1
                        then Inr (Float (round_float (snd (hd at_target)) 4))
                        else Inr (RateSeries (map (\<lambda>(d, c). round_float c 4) at_target)))
                     else
                       (let hist_filtered = filter (\<lambda>(d, c). d \<le> target_date) hist
                        in if hist_filtered \<noteq> []
                           then Inr (Float (round_float (snd (last hist_filtered)) 4))
                           else Inr (Float (round_float (snd (hd hist)) 4))))
               else Inl ValueError))"

text \<open>
  The loop \<open>for attempt in range(max_retries)\<close>: a value returned by the body is the
  result; any exception is caught by \<open>except Exception\<close> and the next attempt follows
  (after a sleep of \<open>2 ** attempt\<close> seconds, which has no effect on the result and is not
  modelled); after the last attempt the fallback rate is returned.
\<close>

fun retry_attempts :: "(nat \<Rightarrow> py_error + rate_value) \<Rightarrow> nat list \<Rightarrow> rate_value" where
  "retry_attempts body [] = Float (Some fallback_rate)"
| "retry_attempts body (attempt # rest) =
    (case body attempt of
       Inr rate \<Rightarrow> rate
     | Inl e \<Rightarrow> retry_attempts body rest)"

definition fetch_historical_inr_rate ::
  "(nat \<Rightarrow> int \<Rightarrow> int \<Rightarrow> history_result) \<Rightarrow> (string \<Rightarrow> int option) \<Rightarrow> string
    \<Rightarrow> rate_value"
where
  "fetch_historical_inr_rate history parse date_str =
     retry_attempts (attempt_body history parse date_str) [0..<max_retries]"

section \<open>Loading the input files\<close>

text \<open>
  What reading the input file gives: \<open>FileNotFoundError\<close>, another exception, or a
  table, of which only the column names matter here.
\<close>

datatype read_result = NotFound | Unreadable | Table "string list"

text \<open>The messages printed while loading, one constructor for each \<open>print\<close>.\<close>

datatype message =
    Loaded
  | MissingRequiredColumns "string list"
  | AvailableColumns "string list"
  | RequiredColumnsFound "string list"
  | FileNotFoundMessage
  | UnexpectedError
  | CreatedSample
  | ErrorReadingCSV "string list option"

text \<open>How a loading stage ends: the process exits with a status, or the run goes on.\<close>

datatype run = Exited int | Proceeds

text \<open>
  \<open>exit(code)\<close> raises \<open>SystemExit(code)\<close>, which is not an \<open>Exception\<close> and so passes
  every \<open>except Exception\<close>; the interpreter ends with status 0 when the code is
  \<open>None\<close>, as it is for \<open>exit()\<close>.
\<close>

definition py_exit :: "int option \<Rightarrow> run" where
  "py_exit code = (case code of None \<Rightarrow> Exited 0 | Some n \<Rightarrow> Exited n)"

definition transfers_required_cols :: "string list" where
  "transfers_required_cols = [''Date'', ''Cash Amount (in USD)'']"

text \<open>Transfers.py, lines 81-102.\<close>

definition load_transfers :: "read_result \<Rightarrow> message list \<times> run" where
  "load_transfers r =
    (case r of
       Table columns \<Rightarrow>
        (let required_cols = transfers_required_cols;
             missing_cols = filter (\<lambda>col. col \<notin> set columns) required_cols
         in if missing_cols \<noteq> []
            then ([Loaded, MissingRequiredColumns missing_cols, AvailableColumns columns],
                  py_exit None)
            else ([Loaded, RequiredColumnsFound required_cols], Proceeds))
     | NotFound \<Rightarrow> ([FileNotFoundMessage], py_exit None)
     | Unreadable \<Rightarrow> ([UnexpectedError], py_exit None))"

definition portfolio_required_cols :: "string list" where
  "portfolio_required_cols = [''ticker'', ''shares_held'', ''avg_cost_usd'']"

text \<open>
  An exception that nothing catches ends the interpreter with a traceback and exit
  status 1.
\<close>

definition py_uncaught :: "py_error \<Rightarrow> run" where
  "py_uncaught e = Exited 1"

text \<open>
  stockprice.py, \<open>read_portfolio_data\<close>. Missing columns raise a \<open>ValueError\<close> whose text
  lists \<open>required_cols\<close>; the handler for \<open>Exception\<close> prints it and exits. A file
  that is not found is reported, then the handler writes a sample file, reports that,
  and exits. \<open>sample_written\<close> says whether \<open>open(file_path, 'w')\<close> and the write succeed:
  an exception raised there, inside the handler, is caught by nothing.
\<close>

definition read_portfolio_data :: "read_result \<Rightarrow> bool \<Rightarrow> message list \<times> run" where
  "read_portfolio_data r sample_written =
    (case r of
       Table columns \<Rightarrow>
        (let required_cols = portfolio_required_cols
         in if \<not> list_all (\<lambda>col. col \<in> set columns) required_cols
            then ([ErrorReadingCSV (Some required_cols)], py_exit None)
            else ([Loaded], Proceeds))
     | NotFound \<Rightarrow>
        (if sample_written then ([FileNotFoundMessage, CreatedSample], py_exit None)
         else ([FileNotFoundMessage], py_uncaught OSError))
     | Unreadable \<Rightarrow> ([ErrorReadingCSV None], py_exit None))"

section \<open>stockprice.py: fetching the market data\<close>

definition MAX_RETRIES :: nat where
  "MAX_RETRIES = 3"

definition RETRY_DELAY :: nat where
  "RETRY_DELAY = 2"

definition BATCH_SIZE :: nat where
  "BATCH_SIZE = 10"

definition BATCH_DELAY :: nat where
  "BATCH_DELAY = 1"

text \<open>
  A price series is the list of its observations in index order; a missing (NaN)
  observation is \<open>None\<close>. The object \<open>data['Close']\<close> (or \<open>data['Close'][ticker]\<close>) is a
  \<open>pd.Series\<close> of floats, or a table (a \<open>pd.DataFrame\<close>, as for a table with MultiIndex
  columns), whose rows are themselves Series. Of a row of such a table the code only
  takes \<open>float(row)\<close>, which gives a float or raises, depending on the row and on the
  version of pandas: a table is the list of what \<open>float\<close> gives on each of its rows.
\<close>

type_synonym series = "real option list"

datatype close_obj = Series series | DataFrame "(py_error + real option) list"

text \<open>
  What the code reads of a table that \<open>yf.download\<close> returns:
  \<open>'Close' in data\<close> (or \<open>in data.columns\<close>), \<open>data.empty\<close>,
  \<open>isinstance(data.columns, pd.MultiIndex)\<close>, the object \<open>data['Close']\<close>, and
  \<open>data['Close'][ticker]\<close> of a table with MultiIndex columns, which raises for an
  unknown ticker (\<open>None\<close>).
\<close>

record frame =
  df_has_close :: bool
  df_empty :: bool
  df_multi_index :: bool
  df_close :: close_obj
  df_close_of :: "string \<Rightarrow> close_obj option"

text \<open>
  What the code reads of the table \<open>hist\<close> that \<open>yf.Ticker(ticker).history\<close> returns:
  \<open>hist.empty\<close>, \<open>'Close' in hist.columns\<close> and the series \<open>hist['Close']\<close> (the columns
  of this table are flat).
\<close>

record ticker_hist =
  hist_empty :: bool
  hist_has_close :: bool
  hist_close :: series

text \<open>
  A call of the data source raises, or returns a table. The source is outside the
  program: \<open>download batch retry_count\<close> is the answer of \<open>yf.download\<close> for the batch
  on the attempt with that retry count, and \<open>history ticker retry_count\<close> the answer of
  \<open>yf.Ticker(ticker).history(period='5d')\<close>. A call that returns something that is no
  table (\<open>None\<close>) counts as one that raises: the first test on it, \<open>'Close' in data\<close>,
  raises inside the same \<open>try\<close>.
\<close>

datatype 'a response = Raises | Returns 'a

text \<open>The calls of the data source and of \<open>time.sleep\<close>, in the order they happen.\<close>

datatype event = Download "string list" | TickerHistory string | Sleep nat

record fetch_state =
  stock_data :: "string \<rightharpoonup> real option quote"
  failed_tickers :: "string list"
  trace :: "event list"

text \<open>\<open>series.dropna()\<close> and \<open>series.iloc[-k]\<close> (used where the length is at least \<open>k\<close>).\<close>

definition dropna :: "series \<Rightarrow> series" where
  "dropna close_series = filter (\<lambda>v. v \<noteq> None) close_series"

definition iloc_from_end :: "'a list \<Rightarrow> nat \<Rightarrow> 'a" where
  "iloc_from_end xs k = xs ! (length xs - k)"

text \<open>
  \<open>float(x)\<close> for each entry \<open>x\<close> of \<open>data['Close']\<close>: the float itself for an
  observation of a Series, and what the table gives for one of its rows.
\<close>

definition floats_of :: "close_obj \<Rightarrow> (py_error + real option) list" where
  "floats_of close_series =
    (case close_series of Series s \<Rightarrow> map Inr s | DataFrame rows \<Rightarrow> rows)"

text \<open>The assignment \<open>stock_data[ticker] = {...}\<close>.\<close>

definition store_quote ::
  "string \<Rightarrow> real option \<Rightarrow> real option \<Rightarrow> fetch_state \<Rightarrow> fetch_state"
where
  "store_quote ticker_name current_price prev_close st =
    st\<lparr>stock_data := (stock_data st)(ticker_name \<mapsto>
         \<lparr>current_price_usd = current_price, prev_close_usd = prev_close\<rparr>)\<rparr>"

definition mark_failed :: "string list \<Rightarrow> fetch_state \<Rightarrow> fetch_state" where
  "mark_failed names st = st\<lparr>failed_tickers := failed_tickers st @ names\<rparr>"

definition log_event :: "event \<Rightarrow> fetch_state \<Rightarrow> fetch_state" where
  "log_event e st = st\<lparr>trace := trace st @ [e]\<rparr>"

text \<open>
  Lines 58-75: the response for a batch of one ticker. The two calls of \<open>float\<close> come
  before anything is stored, and an exception of either leaves the \<open>try\<close> (\<open>Inl\<close>).
\<close>

definition process_single :: "string \<Rightarrow> frame \<Rightarrow> fetch_state \<Rightarrow> py_error + fetch_state" where
  "process_single ticker_name data st =
    (if df_has_close data \<and> \<not> df_empty data then
       (let close_series = floats_of (df_close data)
        in if length close_series \<ge> 2 then
             (case iloc_from_end close_series 1 of
                Inl e \<Rightarrow> Inl e
              | Inr current_price \<Rightarrow>
                 (case iloc_from_end close_series 2 of
                    Inl e \<Rightarrow> Inl e
                  | Inr prev_close \<Rightarrow>
                     Inr (store_quote ticker_name current_price prev_close st)))
           else Inr (mark_failed [ticker_name] st))
     else Inr (mark_failed [ticker_name] st))"

text \<open>
  Lines 80-106: one ticker of a batch of several. An exception of the lookup is caught
  by the inner \<open>except\<close>, which marks the ticker failed; an object that is not a Series
  is an invalid format, which marks the ticker failed too. The floats of a Series
  without its missing values do not raise.
\<close>

definition process_ticker :: "frame \<Rightarrow> string \<Rightarrow> fetch_state \<Rightarrow> fetch_state" where
  "process_ticker data ticker_name st =
    (case (if df_multi_index data then df_close_of data ticker_name
           else Some (df_close data)) of
       None \<Rightarrow> mark_failed [ticker_name] st
     | Some (DataFrame rows) \<Rightarrow> mark_failed [ticker_name] st
     | Some (Series close_series) \<Rightarrow>
        if length close_series \<ge> 2 then
          (let valid_data = dropna close_series
           in if length valid_data \<ge> 2
              then store_quote ticker_name (iloc_from_end valid_data 1)
                     (iloc_from_end valid_data 2) st
              else mark_failed [ticker_name] st)
        else mark_failed [ticker_name] st)"

text \<open>
  Lines 57-109: the part of the \<open>try\<close> after the download returned. \<open>Inl\<close> is an
  exception that leaves the \<open>try\<close>; none is raised after \<open>stock_data\<close> or
  \<open>failed_tickers\<close> has changed.
\<close>

definition process_batch :: "string list \<Rightarrow> frame \<Rightarrow> fetch_state \<Rightarrow> py_error + fetch_state" where
  "process_batch batch data st =
    (if length batch = 1 then process_single (hd batch) data st
     else if df_has_close data \<and> \<not> df_empty data
          then Inr (fold (process_ticker data) batch st)
          else Inr (mark_failed batch st))"

text \<open>
  The \<open>try\<close> of one attempt for a batch (lines 53-111): the download, then the
  processing of what it returned.
\<close>

definition try_batch ::
  "(string list \<Rightarrow> nat \<Rightarrow> frame response) \<Rightarrow> string list \<Rightarrow> nat \<Rightarrow> fetch_state
    \<Rightarrow> py_error + fetch_state"
where
  "try_batch download batch retry_count st =
    (case download batch retry_count of
       Raises \<Rightarrow> Inl OtherError
     | Returns data \<Rightarrow> process_batch batch data st)"

text \<open>
  Lines 52-120: the loop \<open>while retry_count < MAX_RETRIES and not batch_success\<close>. A
  \<open>try\<close> that ends without exception ends the loop (\<open>batch_success = True\<close>) whatever
  the table held; an exception, of the download or of the processing, counts a retry,
  followed by a sleep, or by marking the batch failed when the count reaches
  \<open>MAX_RETRIES\<close>.
\<close>

function batch_attempts ::
  "(string list \<Rightarrow> nat \<Rightarrow> frame response) \<Rightarrow> string list \<Rightarrow> nat \<Rightarrow> fetch_state \<Rightarrow> fetch_state"
where
  "batch_attempts download batch retry_count st =
    (if retry_count < MAX_RETRIES then
       (let st1 = log_event (Download batch) st
        in case try_batch download batch retry_count st1 of
             Inr st2 \<Rightarrow> st2
           | Inl e \<Rightarrow>
              (if retry_count + 1 < MAX_RETRIES
               then batch_attempts download batch (retry_count + 1)
                      (log_event (Sleep RETRY_DELAY) st1)
               else mark_failed batch st1))
     else st)"
  by pat_completeness auto
termination
  by (relation "measure (\<lambda>(download, batch, retry_count, st). MAX_RETRIES - retry_count)")
    auto

declare batch_attempts.simps [simp del]

text \<open>
  Lines 45-124: the loop over the batches, \<open>i\<close> running over
  \<open>range(0, len(tickers), BATCH_SIZE)\<close>, with a sleep between two batches.
\<close>

function batches_loop ::
  "(string list \<Rightarrow> nat \<Rightarrow> frame response) \<Rightarrow> string list \<Rightarrow> nat \<Rightarrow> fetch_state \<Rightarrow> fetch_state"
where
  "batches_loop download tickers i st =
    (if i < length tickers then
       (let batch = take BATCH_SIZE (drop i tickers);
            st1 = batch_attempts download batch 0 st;
            st2 = (if i + BATCH_SIZE < length tickers
                   then log_event (Sleep BATCH_DELAY) st1 else st1)
        in batches_loop download tickers (i + BATCH_SIZE) st2)
     else st)"
  by pat_completeness auto
termination
  by (relation "measure (\<lambda>(download, tickers, i, st). length tickers - i)")
    (auto simp: BATCH_SIZE_def)

declare batches_loop.simps [simp del]

text \<open>
  Lines 133-164: the individual retry of one failed ticker,
  \<open>while retry_count < MAX_RETRIES and not success\<close>.
\<close>

function ticker_attempts ::
  "(string \<Rightarrow> nat \<Rightarrow> ticker_hist response) \<Rightarrow> string \<Rightarrow> nat \<Rightarrow> fetch_state \<Rightarrow> fetch_state"
where
  "ticker_attempts history ticker_name retry_count st =
    (if retry_count < MAX_RETRIES then
       (let st1 = log_event (TickerHistory ticker_name) st;
            again = (\<lambda>u::unit.
              ticker_attempts history ticker_name (retry_count + 1)
                (if retry_count + 1 < MAX_RETRIES
                 then log_event (Sleep RETRY_DELAY) st1 else st1))
        in case history ticker_name retry_count of
             Raises \<Rightarrow> again ()
           | Returns hist \<Rightarrow>
              if \<not> hist_empty hist \<and> hist_has_close hist then
                (let close_series = dropna (hist_close hist)
                 in if length close_series \<ge> 2
                    then (store_quote ticker_name (iloc_from_end close_series 1)
                            (iloc_from_end close_series 2) st1)
                           \<lparr>failed_tickers := remove1 ticker_name (failed_tickers st1)\<rparr>
                    else again ())
              else again ())
     else st)"
  by pat_completeness auto
termination
  by (relation "measure (\<lambda>(history, ticker_name, retry_count, st). MAX_RETRIES - retry_count)")
    auto

declare ticker_attempts.simps [simp del]

text \<open>
  \<open>fetch_stock_data\<close>: the batches, then the individual retry of every ticker of a copy
  of \<open>failed_tickers\<close>; the value returned is \<open>stock_data\<close>.
\<close>

definition fetch_stock_data_state ::
  "(string list \<Rightarrow> nat \<Rightarrow> frame response) \<Rightarrow> (string \<Rightarrow> nat \<Rightarrow> ticker_hist response)
    \<Rightarrow> string list \<Rightarrow> fetch_state"
where
  "fetch_stock_data_state download history tickers =
    (let st = batches_loop download tickers 0
                \<lparr>stock_data = Map.empty, failed_tickers = [], trace = []\<rparr>
     in fold (\<lambda>ticker_name. ticker_attempts history ticker_name 0) (failed_tickers st) st)"

definition fetch_stock_data ::
  "(string list \<Rightarrow> nat \<Rightarrow> frame response) \<Rightarrow> (string \<Rightarrow> nat \<Rightarrow> ticker_hist response)
    \<Rightarrow> string list \<Rightarrow> (string \<rightharpoonup> real option quote)"
where
  "fetch_stock_data download history tickers =
     stock_data (fetch_stock_data_state download history tickers)"

section \<open>Properties of the metric calculation\<close>

lemma analyze_row_Inr_iff:
  "(\<exists>m. analyze_row row q r = Inr m) \<longleftrightarrow> prev_close_usd q \<noteq> 0"
  by (simp add: analyze_row_def py_truediv_def Let_def)

lemma analyze_row_zero:
  "prev_close_usd q = 0 \<Longrightarrow> analyze_row row q r = Inl ZeroDivisionError"
  by (simp add: analyze_row_def py_truediv_def Let_def)

lemma analyze_row_consistent:
  assumes "analyze_row row q r = Inr m"
  shows "gain_loss_inr m = gain_loss_usd m * r"
    and "gain_loss_inr m = current_value_inr m - investment_inr m"
    and "current_value_inr m = current_value_usd m * r"
    and "investment_inr m = investment_usd m * r"
  using assms
  by (auto simp: analyze_row_def py_truediv_def Let_def algebra_simps split: if_splits)

lemma analyze_loop_rows:
  assumes "analyze_loop df md r acc = Inr rows"
    and "m \<in> set rows"
  shows "m \<in> set acc \<or> (\<exists>row q. row \<in> set df \<and> md (ticker row) = Some q
            \<and> analyze_row row q r = Inr m)"
  using assms
proof (induction df arbitrary: acc)
  case Nil
  then show ?case by simp
next
  case (Cons row rest)
  show ?case
  proof (cases "md (ticker row)")
    case None
    with Cons.prems have "analyze_loop rest md r acc = Inr rows" by simp
    from Cons.IH [OF this Cons.prems(2)] show ?thesis by auto
  next
    case (Some q)
    show ?thesis
    proof (cases "analyze_row row q r")
      case (Inl e)
      with Some Cons.prems show ?thesis by simp
    next
      case (Inr m')
      with Some Cons.prems have "analyze_loop rest md r (acc @ [m']) = Inr rows" by simp
      from Cons.IH [OF this Cons.prems(2)] Some Inr show ?thesis by auto
    qed
  qed
qed

lemma analyze_loop_zero:
  assumes "row \<in> set df" and "md (ticker row) = Some q" and "prev_close_usd q = 0"
  shows "analyze_loop df md r acc = Inl ZeroDivisionError"
  using assms
proof (induction df arbitrary: acc)
  case Nil
  then show ?case by simp
next
  case (Cons x rest)
  show ?case
  proof (cases "md (ticker x)")
    case None
    with Cons.prems have "row \<in> set rest" by auto
    from Cons.IH [OF this Cons.prems(2,3)] None show ?thesis by simp
  next
    case (Some qx)
    show ?thesis
    proof (cases "analyze_row x qx r")
      case (Inl e)
      then have "prev_close_usd qx = 0"
        using analyze_row_Inr_iff [of x qx r] by auto
      then have "analyze_row x qx r = Inl ZeroDivisionError" by (rule analyze_row_zero)
      with Some show ?thesis by simp
    next
      case (Inr m)
      then have "prev_close_usd qx \<noteq> 0"
        using analyze_row_Inr_iff [of x qx r] by auto
      with Cons.prems Some have "row \<in> set rest" by auto
      from Cons.IH [OF this Cons.prems(2,3)] Some Inr show ?thesis by simp
    qed
  qed
qed

lemma analyze_row_pct:
  assumes "analyze_row row q r = Inr m"
  shows "m_prev_close_usd m \<noteq> 0"
    and "daily_change_pct m =
           (m_current_price_usd m - m_prev_close_usd m) / m_prev_close_usd m * 100"
  using assms
  by (auto simp: analyze_row_def py_truediv_def Let_def split: if_splits)

text \<open>
  C10. Every row that \<open>analyze_portfolio\<close> produces has consistent converted amounts:
  Gain/Loss (INR) is Gain/Loss (USD) times the exchange rate and is also
  Current Value (INR) minus Investment (INR); Current Value (INR) is Current Value (USD)
  times the exchange rate, and Investment (INR) is Investment (USD) times the exchange
  rate. The arithmetic is exact (real numbers).
\<close>

theorem analyze_portfolio_inr_consistent:
  assumes "analyze_portfolio portfolio_df market_data exchange_rate = Inr rows"
    and "m \<in> set rows"
  shows "gain_loss_inr m = gain_loss_usd m * exchange_rate
       \<and> gain_loss_inr m = current_value_inr m - investment_inr m
       \<and> current_value_inr m = current_value_usd m * exchange_rate
       \<and> investment_inr m = investment_usd m * exchange_rate"
proof -
  from assms have "m \<in> set [] \<or> (\<exists>row q. row \<in> set portfolio_df
      \<and> market_data (ticker row) = Some q \<and> analyze_row row q exchange_rate = Inr m)"
    unfolding analyze_portfolio_def by (rule analyze_loop_rows)
  then obtain row q where "analyze_row row q exchange_rate = Inr m" by auto
  from analyze_row_consistent [OF this] show ?thesis by simp
qed

theorem analyze_portfolio_inr_consistent_witness:
  "analyze_portfolio
     [\<lparr>ticker = ''AAPL'', shares_held = 10, avg_cost_usd = 175\<rparr>]
     [''AAPL'' \<mapsto> \<lparr>current_price_usd = 200, prev_close_usd = 160\<rparr>] 88
   = Inr [\<lparr>m_ticker = ''AAPL'', m_shares = 10, m_avg_cost_usd = 175,
           m_current_price_usd = 200, m_prev_close_usd = 160, daily_change_pct = 25,
           daily_change_inr = 35200, investment_usd = 1750, current_value_usd = 2000,
           investment_inr = 154000, current_value_inr = 176000, gain_loss_usd = 250,
           gain_loss_inr = 22000\<rparr>]
   \<and> (22000::real) = 250 * 88 \<and> (22000::real) = 176000 - 154000
   \<and> (176000::real) = 2000 * 88 \<and> (154000::real) = 1750 * 88"
proof -
  let ?m = "\<lparr>m_ticker = ''AAPL'', m_shares = 10, m_avg_cost_usd = 175,
           m_current_price_usd = 200, m_prev_close_usd = 160, daily_change_pct = 25,
           daily_change_inr = 35200, investment_usd = 1750, current_value_usd = 2000,
           investment_inr = 154000, current_value_inr = 176000, gain_loss_usd = 250,
           gain_loss_inr = 22000\<rparr>"
  have run: "analyze_portfolio
     [\<lparr>ticker = ''AAPL'', shares_held = 10, avg_cost_usd = 175\<rparr>]
     [''AAPL'' \<mapsto> \<lparr>current_price_usd = 200, prev_close_usd = 160\<rparr>] 88 = Inr [?m]"
    by (simp add: analyze_portfolio_def analyze_row_def py_truediv_def Let_def)
  have mem: "?m \<in> set [?m]" by simp
  from analyze_portfolio_inr_consistent [OF run mem] run show ?thesis by simp
qed

text \<open>
  C1, as the claim states it, asks that a position whose quote has a previous close of 0
  gets a row whose daily change percent is an explicit undefined mark. The code has no
  such mark: the division of two Python floats raises \<open>ZeroDivisionError\<close>, which
  nothing catches, so no table is returned at all.
\<close>

theorem analyze_portfolio_zero_prev_close_counterexample:
  "analyze_portfolio
     [\<lparr>ticker = ''AAPL'', shares_held = 10, avg_cost_usd = 175\<rparr>]
     [''AAPL'' \<mapsto> \<lparr>current_price_usd = 200, prev_close_usd = 0\<rparr>] 88
   = Inl ZeroDivisionError"
  by (simp add: analyze_portfolio_def analyze_row_def py_truediv_def Let_def)

text \<open>
  C1, amended. When some position of the portfolio has a quote whose previous close is
  0, \<open>analyze_portfolio\<close> raises \<open>ZeroDivisionError\<close> and produces no row; and in every
  table it does return, each row has a non-zero previous close and its daily change
  percent is the quotient \<open>(current - previous) / previous * 100\<close>, so no undefined
  percent reaches the later stages.
\<close>

theorem analyze_portfolio_zero_prev_close:
  "(row \<in> set portfolio_df \<and> market_data (ticker row) = Some q \<and> prev_close_usd q = 0
      \<longrightarrow> analyze_portfolio portfolio_df market_data exchange_rate = Inl ZeroDivisionError)
   \<and> (analyze_portfolio portfolio_df market_data exchange_rate = Inr rows \<and> m \<in> set rows
      \<longrightarrow> m_prev_close_usd m \<noteq> 0
        \<and> daily_change_pct m =
            (m_current_price_usd m - m_prev_close_usd m) / m_prev_close_usd m * 100)"
proof (intro conjI impI)
  assume "row \<in> set portfolio_df \<and> market_data (ticker row) = Some q \<and> prev_close_usd q = 0"
  then show "analyze_portfolio portfolio_df market_data exchange_rate = Inl ZeroDivisionError"
    unfolding analyze_portfolio_def by (blast intro: analyze_loop_zero)
next
  assume a: "analyze_portfolio portfolio_df market_data exchange_rate = Inr rows \<and> m \<in> set rows"
  then have "analyze_loop portfolio_df market_data exchange_rate [] = Inr rows"
    and "m \<in> set rows"
    unfolding analyze_portfolio_def by simp_all
  then have "m \<in> set [] \<or> (\<exists>row q. row \<in> set portfolio_df
      \<and> market_data (ticker row) = Some q \<and> analyze_row row q exchange_rate = Inr m)"
    by (rule analyze_loop_rows)
  then obtain row' q' where r: "analyze_row row' q' exchange_rate = Inr m" by auto
  from analyze_row_pct [OF r]
  show "m_prev_close_usd m \<noteq> 0"
    and "daily_change_pct m =
            (m_current_price_usd m - m_prev_close_usd m) / m_prev_close_usd m * 100"
    by simp_all
qed

theorem analyze_portfolio_zero_prev_close_witness:
  "analyze_portfolio
     [\<lparr>ticker = ''MSFT'', shares_held = 5, avg_cost_usd = 350\<rparr>,
      \<lparr>ticker = ''AAPL'', shares_held = 10, avg_cost_usd = 175\<rparr>]
     [''AAPL'' \<mapsto> \<lparr>current_price_usd = 200, prev_close_usd = 0\<rparr>,
      ''MSFT'' \<mapsto> \<lparr>current_price_usd = 400, prev_close_usd = 390\<rparr>] 88
   = Inl ZeroDivisionError
   \<and> analyze_portfolio
     [\<lparr>ticker = ''AAPL'', shares_held = 10, avg_cost_usd = 175\<rparr>]
     [''AAPL'' \<mapsto> \<lparr>current_price_usd = 200, prev_close_usd = 160\<rparr>] 88
   = Inr [\<lparr>m_ticker = ''AAPL'', m_shares = 10, m_avg_cost_usd = 175,
           m_current_price_usd = 200, m_prev_close_usd = 160, daily_change_pct = 25,
           daily_change_inr = 35200, investment_usd = 1750, current_value_usd = 2000,
           investment_inr = 154000, current_value_inr = 176000, gain_loss_usd = 250,
           gain_loss_inr = 22000\<rparr>]
   \<and> (160::real) \<noteq> 0 \<and> (25::real) = (200 - 160) / 160 * 100"
proof -
  let ?df = "[\<lparr>ticker = ''MSFT'', shares_held = 5, avg_cost_usd = 350\<rparr>,
      \<lparr>ticker = ''AAPL'', shares_held = 10, avg_cost_usd = 175\<rparr>]"
  let ?md = "[''AAPL'' \<mapsto> \<lparr>current_price_usd = 200, prev_close_usd = 0\<rparr>,
      ''MSFT'' \<mapsto> \<lparr>current_price_usd = 400, prev_close_usd = (390::real)\<rparr>]"
  let ?row = "\<lparr>ticker = ''AAPL'', shares_held = 10, avg_cost_usd = (175::real)\<rparr>"
  let ?q = "\<lparr>current_price_usd = 200, prev_close_usd = (0::real)\<rparr>"
  let ?m = "\<lparr>m_ticker = ''AAPL'', m_shares = 10, m_avg_cost_usd = 175,
           m_current_price_usd = 200, m_prev_close_usd = 160, daily_change_pct = 25,
           daily_change_inr = 35200, investment_usd = 1750, current_value_usd = 2000,
           investment_inr = 154000, current_value_inr = 176000, gain_loss_usd = 250,
           gain_loss_inr = 22000\<rparr>"
  have h1: "?row \<in> set ?df \<and> ?md (ticker ?row) = Some ?q \<and> prev_close_usd ?q = 0"
    by simp
  have run: "analyze_portfolio
     [\<lparr>ticker = ''AAPL'', shares_held = 10, avg_cost_usd = 175\<rparr>]
     [''AAPL'' \<mapsto> \<lparr>current_price_usd = 200, prev_close_usd = 160\<rparr>] 88 = Inr [?m]"
    by (simp add: analyze_portfolio_def analyze_row_def py_truediv_def Let_def)
  have h2: "analyze_portfolio
     [\<lparr>ticker = ''AAPL'', shares_held = 10, avg_cost_usd = 175\<rparr>]
     [''AAPL'' \<mapsto> \<lparr>current_price_usd = 200, prev_close_usd = 160\<rparr>] 88 = Inr [?m]
     \<and> ?m \<in> set [?m]"
    using run by simp
  from analyze_portfolio_zero_prev_close [of ?row ?df ?md ?q 88]
  have c1: "analyze_portfolio ?df ?md 88 = Inl ZeroDivisionError"
    using h1 by blast
  from analyze_portfolio_zero_prev_close
    [of _ "[\<lparr>ticker = ''AAPL'', shares_held = 10, avg_cost_usd = 175\<rparr>]"
        "[''AAPL'' \<mapsto> \<lparr>current_price_usd = 200, prev_close_usd = 160\<rparr>]" _ 88 "[?m]" ?m]
  have c2: "m_prev_close_usd ?m \<noteq> 0 \<and> daily_change_pct ?m =
      (m_current_price_usd ?m - m_prev_close_usd ?m) / m_prev_close_usd ?m * 100"
    using h2 by blast
  from c1 c2 run show ?thesis by simp
qed

section \<open>Properties of the report totals\<close>

text \<open>
  C6, as the claim states it, asks for an undefined (N/A) portfolio return when the total
  investment is 0. The code reports the number 0 there: a position holding 0 shares
  gives a table whose total investment is 0, and the return computed for it is 0 where
  the specification's return is undefined.
\<close>

theorem total_gain_loss_pct_counterexample:
  "analyze_portfolio
     [\<lparr>ticker = ''AAPL'', shares_held = 0, avg_cost_usd = 175\<rparr>]
     [''AAPL'' \<mapsto> \<lparr>current_price_usd = 200, prev_close_usd = 160\<rparr>] 88
   = Inr [\<lparr>m_ticker = ''AAPL'', m_shares = 0, m_avg_cost_usd = 175,
           m_current_price_usd = 200, m_prev_close_usd = 160, daily_change_pct = 25,
           daily_change_inr = 0, investment_usd = 0, current_value_usd = 0,
           investment_inr = 0, current_value_inr = 0, gain_loss_usd = 0,
           gain_loss_inr = 0\<rparr>]
   \<and> total_gain_loss_pct
       [\<lparr>m_ticker = ''AAPL'', m_shares = 0, m_avg_cost_usd = 175,
           m_current_price_usd = 200, m_prev_close_usd = 160, daily_change_pct = 25,
           daily_change_inr = 0, investment_usd = 0, current_value_usd = 0,
           investment_inr = 0, current_value_inr = 0, gain_loss_usd = 0,
           gain_loss_inr = 0\<rparr>] = 0
   \<and> spec_portfolio_return_pct 0 0 = None"
  by (simp add: analyze_portfolio_def analyze_row_def py_truediv_def Let_def
      total_gain_loss_pct_def column_sum_def spec_portfolio_return_pct_def)

text \<open>
  C6, amended. When the total investment is positive, the portfolio return is the total
  gain/loss divided by the total investment, times 100, as the specification has it;
  when the total investment is zero or negative, the return reported is the number 0.
\<close>

theorem total_gain_loss_pct_guarded:
  "(column_sum investment_usd summary_df > 0 \<longrightarrow>
      total_gain_loss_pct summary_df
        = column_sum gain_loss_usd summary_df / column_sum investment_usd summary_df * 100
      \<and> Some (total_gain_loss_pct summary_df)
        = spec_portfolio_return_pct (column_sum gain_loss_usd summary_df)
            (column_sum investment_usd summary_df))
   \<and> (column_sum investment_usd summary_df \<le> 0 \<longrightarrow> total_gain_loss_pct summary_df = 0)"
  by (simp add: total_gain_loss_pct_def spec_portfolio_return_pct_def Let_def)

theorem total_gain_loss_pct_guarded_witness:
  "column_sum investment_usd
     [\<lparr>m_ticker = ''AAPL'', m_shares = 10, m_avg_cost_usd = 175,
           m_current_price_usd = 200, m_prev_close_usd = 160, daily_change_pct = 25,
           daily_change_inr = 35200, investment_usd = 1750, current_value_usd = 2000,
           investment_inr = 154000, current_value_inr = 176000, gain_loss_usd = 250,
           gain_loss_inr = 22000\<rparr>] > 0
   \<and> total_gain_loss_pct
     [\<lparr>m_ticker = ''AAPL'', m_shares = 10, m_avg_cost_usd = 175,
           m_current_price_usd = 200, m_prev_close_usd = 160, daily_change_pct = 25,
           daily_change_inr = 35200, investment_usd = 1750, current_value_usd = 2000,
           investment_inr = 154000, current_value_inr = 176000, gain_loss_usd = 250,
           gain_loss_inr = 22000\<rparr>] = 100 / 7
   \<and> column_sum investment_usd
     [\<lparr>m_ticker = ''AAPL'', m_shares = - 1, m_avg_cost_usd = 175,
           m_current_price_usd = 200, m_prev_close_usd = 160, daily_change_pct = 25,
           daily_change_inr = - 3520, investment_usd = - 175, current_value_usd = - 200,
           investment_inr = - 15400, current_value_inr = - 17600, gain_loss_usd = - 25,
           gain_loss_inr = - 2200\<rparr>] \<le> 0
   \<and> total_gain_loss_pct
     [\<lparr>m_ticker = ''AAPL'', m_shares = - 1, m_avg_cost_usd = 175,
           m_current_price_usd = 200, m_prev_close_usd = 160, daily_change_pct = 25,
           daily_change_inr = - 3520, investment_usd = - 175, current_value_usd = - 200,
           investment_inr = - 15400, current_value_inr = - 17600, gain_loss_usd = - 25,
           gain_loss_inr = - 2200\<rparr>] = 0"
proof -
  let ?up = "[\<lparr>m_ticker = ''AAPL'', m_shares = 10, m_avg_cost_usd = 175,
           m_current_price_usd = 200, m_prev_close_usd = 160, daily_change_pct = 25,
           daily_change_inr = 35200, investment_usd = 1750, current_value_usd = 2000,
           investment_inr = 154000, current_value_inr = 176000, gain_loss_usd = 250,
           gain_loss_inr = 22000\<rparr>]"
  let ?short = "[\<lparr>m_ticker = ''AAPL'', m_shares = - 1, m_avg_cost_usd = 175,
           m_current_price_usd = 200, m_prev_close_usd = 160, daily_change_pct = 25,
           daily_change_inr = - 3520, investment_usd = - 175, current_value_usd = - 200,
           investment_inr = - 15400, current_value_inr = - 17600, gain_loss_usd = - 25,
           gain_loss_inr = - 2200\<rparr>]"
  have pos: "column_sum investment_usd ?up > 0" by (simp add: column_sum_def)
  have neg: "column_sum investment_usd ?short \<le> 0" by (simp add: column_sum_def)
  from total_gain_loss_pct_guarded [of ?up] pos
  have a: "total_gain_loss_pct ?up
      = column_sum gain_loss_usd ?up / column_sum investment_usd ?up * 100"
    by blast
  from total_gain_loss_pct_guarded [of ?short] neg
  have b: "total_gain_loss_pct ?short = 0" by blast
  from a have "total_gain_loss_pct ?up = 100 / 7" by (simp add: column_sum_def)
  with pos neg b show ?thesis by simp
qed




section \<open>Properties of the suggestion engine\<close>

lemma sort_values_mset: "mset (sort_values col asc df) = mset df"
  by (simp add: sort_values_def)

lemma sort_values_ascending: "sorted (map col (sort_values col True df))"
  by (simp add: sort_values_def)

lemma sort_values_descending:
  "sorted_wrt (\<lambda>a b. col a \<ge> col b) (sort_values col False df)"
proof -
  have "sorted (map col (sort_key col (rev df)))" by simp
  then have "sorted_wrt (\<lambda>a b. col a \<le> col b) (sort_key col (rev df))"
    by (simp add: sorted_map)
  then show ?thesis
    by (simp add: sort_values_def sorted_wrt_rev)
qed

lemma filter_suggestion_lines:
  "filter is_book_profit (map book_profit_line rows) = map book_profit_line rows"
  "filter is_book_profit (map buy_more_line rows) = []"
  "filter is_buy_more (map buy_more_line rows) = map buy_more_line rows"
  "filter is_buy_more (map book_profit_line rows) = []"
  by (induction rows) (simp_all add: book_profit_line_def buy_more_line_def)

text \<open>
  C9. The output of \<open>generate_suggestions\<close> has the volatile-market caution exactly
  when the Daily Change (INR) column sums to less than -1000 and the stable notice exactly
  otherwise. Its book-profit lines are, in order, the first 3 rows of \<open>profit_targets\<close>,
  which holds exactly the rows with Gain/Loss (INR) > 50000 and Daily Change (%) > 2.0
  (as a multiset) in descending order of Daily Change (%); its buy-more lines are the
  first 3 rows of \<open>buy_targets\<close>, which holds exactly the rows with Gain/Loss (INR) < 0
  and Daily Change (%) < -1.0 in ascending order of Daily Change (%).
\<close>

theorem generate_suggestions_rules:
  "(VolatileCaution \<in> set (generate_suggestions summary_df)
      \<longleftrightarrow> column_sum daily_change_inr summary_df < - 1000)
   \<and> (StableNotice \<in> set (generate_suggestions summary_df)
      \<longleftrightarrow> \<not> column_sum daily_change_inr summary_df < - 1000)
   \<and> filter is_book_profit (generate_suggestions summary_df)
       = map book_profit_line (take 3 (profit_targets summary_df))
   \<and> mset (profit_targets summary_df)
       = mset (filter (\<lambda>row. gain_loss_inr row > 50000 \<and> daily_change_pct row > 2)
                 summary_df)
   \<and> sorted_wrt (\<lambda>a b. daily_change_pct a \<ge> daily_change_pct b) (profit_targets summary_df)
   \<and> filter is_buy_more (generate_suggestions summary_df)
       = map buy_more_line (take 3 (buy_targets summary_df))
   \<and> mset (buy_targets summary_df)
       = mset (filter (\<lambda>row. gain_loss_inr row < 0 \<and> daily_change_pct row < - 1)
                 summary_df)
   \<and> sorted_wrt (\<lambda>a b. daily_change_pct a \<le> daily_change_pct b) (buy_targets summary_df)"
proof (intro conjI)
  show "VolatileCaution \<in> set (generate_suggestions summary_df)
      \<longleftrightarrow> column_sum daily_change_inr summary_df < - 1000"
    by (auto simp: generate_suggestions_def Let_def book_profit_line_def buy_more_line_def)
  show "StableNotice \<in> set (generate_suggestions summary_df)
      \<longleftrightarrow> \<not> column_sum daily_change_inr summary_df < - 1000"
    by (auto simp: generate_suggestions_def Let_def book_profit_line_def buy_more_line_def)
  show "filter is_book_profit (generate_suggestions summary_df)
       = map book_profit_line (take 3 (profit_targets summary_df))"
    by (simp add: generate_suggestions_def Let_def head_def filter_suggestion_lines)
  show "filter is_buy_more (generate_suggestions summary_df)
       = map buy_more_line (take 3 (buy_targets summary_df))"
    by (simp add: generate_suggestions_def Let_def head_def filter_suggestion_lines)
  show "mset (profit_targets summary_df)
       = mset (filter (\<lambda>row. gain_loss_inr row > 50000 \<and> daily_change_pct row > 2)
                 summary_df)"
    by (simp add: profit_targets_def sort_values_mset)
  show "mset (buy_targets summary_df)
       = mset (filter (\<lambda>row. gain_loss_inr row < 0 \<and> daily_change_pct row < - 1)
                 summary_df)"
    by (simp add: buy_targets_def sort_values_mset)
  show "sorted_wrt (\<lambda>a b. daily_change_pct a \<ge> daily_change_pct b) (profit_targets summary_df)"
    unfolding profit_targets_def by (rule sort_values_descending)
  show "sorted_wrt (\<lambda>a b. daily_change_pct a \<le> daily_change_pct b) (buy_targets summary_df)"
    using sort_values_ascending [of daily_change_pct]
    by (simp add: buy_targets_def sorted_map)
qed

theorem generate_suggestions_rules_witness:
  "map_sum id generate_suggestions
    (analyze_portfolio
     [\<lparr>ticker = ''E'', shares_held = 1000, avg_cost_usd = 100\<rparr>,
      \<lparr>ticker = ''A'', shares_held = 100, avg_cost_usd = 100\<rparr>,
      \<lparr>ticker = ''C'', shares_held = 10, avg_cost_usd = 100\<rparr>,
      \<lparr>ticker = ''B'', shares_held = 200, avg_cost_usd = 100\<rparr>,
      \<lparr>ticker = ''D'', shares_held = 100, avg_cost_usd = 100\<rparr>]
     [''A'' \<mapsto> \<lparr>current_price_usd = 110, prev_close_usd = 100\<rparr>,
      ''B'' \<mapsto> \<lparr>current_price_usd = 105, prev_close_usd = 100\<rparr>,
      ''C'' \<mapsto> \<lparr>current_price_usd = 90, prev_close_usd = 100\<rparr>,
      ''D'' \<mapsto> \<lparr>current_price_usd = 120, prev_close_usd = 100\<rparr>,
      ''E'' \<mapsto> \<lparr>current_price_usd = 103, prev_close_usd = 100\<rparr>] 88)
   = Inr [Title, StableNotice,
          BookProfitHeader, BookProfit ''D'' 20 176000, BookProfit ''A'' 10 88000,
          BookProfit ''B'' 5 88000,
          BuyMoreHeader, BuyMore ''C'' (- 10) 8800]"
  using generate_suggestions_rules [of "projr (analyze_portfolio
     [\<lparr>ticker = ''E'', shares_held = 1000, avg_cost_usd = 100\<rparr>,
      \<lparr>ticker = ''A'', shares_held = 100, avg_cost_usd = 100\<rparr>,
      \<lparr>ticker = ''C'', shares_held = 10, avg_cost_usd = 100\<rparr>,
      \<lparr>ticker = ''B'', shares_held = 200, avg_cost_usd = 100\<rparr>,
      \<lparr>ticker = ''D'', shares_held = 100, avg_cost_usd = 100\<rparr>]
     [''A'' \<mapsto> \<lparr>current_price_usd = 110, prev_close_usd = 100\<rparr>,
      ''B'' \<mapsto> \<lparr>current_price_usd = 105, prev_close_usd = 100\<rparr>,
      ''C'' \<mapsto> \<lparr>current_price_usd = 90, prev_close_usd = 100\<rparr>,
      ''D'' \<mapsto> \<lparr>current_price_usd = 120, prev_close_usd = 100\<rparr>,
      ''E'' \<mapsto> \<lparr>current_price_usd = 103, prev_close_usd = 100\<rparr>] 88)"]
  by (simp add: analyze_portfolio_def analyze_row_def py_truediv_def Let_def
      generate_suggestions_def column_sum_def profit_targets_def buy_targets_def
      sort_values_def head_def book_profit_line_def buy_more_line_def)

section \<open>Properties of the historical rate fetch\<close>

lemma retry_attempts_skip:
  "\<forall>b\<in>set xs. \<exists>e. body b = Inl e \<Longrightarrow> retry_attempts body (xs @ ys) = retry_attempts body ys"
  by (induction xs) auto


lemma retry_attempts_first_success:
  assumes "a < n" and "\<forall>b<a. \<exists>e. body b = Inl e" and "body a = Inr r"
  shows "retry_attempts body [0..<n] = r"
proof -
  from assms(1) have "[0..<n] = [0..<a] @ a # [Suc a..<n]"
    by (metis less_imp_le_nat upt_add_eq_append upt_conv_Cons zero_le add_0 le_add_diff_inverse)
  moreover have "\<forall>b\<in>set [0..<a]. \<exists>e. body b = Inl e" using assms(2) by simp
  ultimately have "retry_attempts body [0..<n] = retry_attempts body (a # [Suc a..<n])"
    by (simp add: retry_attempts_skip)
  with assms(3) show ?thesis by simp
qed


lemma sorted_last_ge:
  fixes xs :: "int list"
  shows "sorted xs \<Longrightarrow> x \<in> set xs \<Longrightarrow> x \<le> last xs"
  by (induction xs) auto

lemma sorted_hd_le:
  fixes xs :: "int list"
  shows "sorted xs \<Longrightarrow> x \<in> set xs \<Longrightarrow> hd xs \<le> x"
  by (cases xs) auto

lemma latest_before:
  fixes hist :: "(int \<times> real option) list"
  assumes "sorted_wrt (<) (map fst hist)"
    and "filter (\<lambda>(x, c). x \<le> d) hist \<noteq> []"
  shows "last (filter (\<lambda>(x, c). x \<le> d) hist) \<in> set hist"
    and "fst (last (filter (\<lambda>(x, c). x \<le> d) hist)) = Max {x \<in> fst ` set hist. x \<le> d}"
proof -
  let ?f = "filter (\<lambda>(x, c). x \<le> d) hist"
  from assms(2) have mem: "last ?f \<in> set ?f" by (rule last_in_set)
  then show "last ?f \<in> set hist" by simp
  from assms(1) have "sorted (map fst hist)" by (rule strict_sorted_imp_sorted)
  then have s: "sorted (map fst ?f)" by (rule sorted_filter)
  have lm: "last (map fst ?f) = fst (last ?f)" using assms(2) by (simp add: last_map)
  have ub: "y \<le> fst (last ?f)" if "y \<in> {x \<in> fst ` set hist. x \<le> d}" for y
  proof -
    from that have "y \<in> set (map fst ?f)" by force
    from sorted_last_ge [OF s this] lm show ?thesis by simp
  qed
  have "fst (last ?f) \<in> {x \<in> fst ` set hist. x \<le> d}" using mem by force
  with ub show "fst (last ?f) = Max {x \<in> fst ` set hist. x \<le> d}"
    by (intro Max_eqI [symmetric]) auto
qed

lemma earliest:
  fixes hist :: "(int \<times> real option) list"
  assumes "sorted_wrt (<) (map fst hist)" and "hist \<noteq> []"
  shows "fst (hd hist) = Min (fst ` set hist)"
proof -
  from assms(1) have s: "sorted (map fst hist)" by (rule strict_sorted_imp_sorted)
  have hm: "hd (map fst hist) = fst (hd hist)" using assms(2) by (simp add: hd_map)
  have "fst (hd hist) \<le> y" if "y \<in> fst ` set hist" for y
    using sorted_hd_le [OF s, of y] that hm by simp
  moreover have "fst (hd hist) \<in> fst ` set hist" using assms(2) by simp
  ultimately show ?thesis by (intro Min_eqI [symmetric]) auto
qed

lemma at_target_unique:
  fixes hist :: "(int \<times> real option) list"
  assumes "distinct (map fst hist)" and "(d, c) \<in> set hist"
  shows "filter (\<lambda>(x, c). x = d) hist = [(d, c)]"
  using assms
proof (induction hist)
  case Nil
  then show ?case by simp
next
  case (Cons p hist)
  show ?case
  proof (cases "fst p = d")
    case True
    with Cons.prems have "p = (d, c)" by (cases p) force
    moreover from True Cons.prems have "d \<notin> fst ` set hist" by auto
    then have "filter (\<lambda>(x, c). x = d) hist = []"
      by (force simp: filter_empty_conv)
    ultimately show ?thesis by simp
  next
    case False
    with Cons.prems have "(d, c) \<in> set hist" by auto
    with Cons.IH Cons.prems False show ?thesis by (cases p) auto
  qed
qed


lemma attempt_body_fails:
  assumes "parse date_str = Some d"
    and "history b (d - 5) (d + 1) = HistoryRaises \<or> history b (d - 5) (d + 1) = History []"
  shows "\<exists>e. attempt_body history parse date_str b = Inl e"
  using assms by (auto simp: attempt_body_def Let_def)

lemma attempt_body_selects:
  assumes "parse date_str = Some d"
    and "history a (d - 5) (d + 1) = History hist" and "hist \<noteq> []"
    and "sorted_wrt (<) (map fst hist)"
  shows "\<exists>r. attempt_body history parse date_str a = Inr r
     \<and> (d \<in> fst ` set hist \<longrightarrow>
          (\<exists>c. (d, c) \<in> set hist \<and> r = Float (round_float c 4)))
     \<and> (d \<notin> fst ` set hist \<and> (\<exists>x\<in>fst ` set hist. x \<le> d) \<longrightarrow>
          (\<exists>c. (Max {x \<in> fst ` set hist. x \<le> d}, c) \<in> set hist
             \<and> r = Float (round_float c 4)))
     \<and> ((\<forall>x\<in>fst ` set hist. d < x) \<longrightarrow>
          (\<exists>c. (Min (fst ` set hist), c) \<in> set hist \<and> r = Float (round_float c 4)))"
proof (cases "d \<in> fst ` set hist")
  case True
  then obtain c where in_hist: "(d, c) \<in> set hist" by force
  from assms(4) have "distinct (map fst hist)"
    using strict_sorted_iff [of "map fst hist"] by blast
  from at_target_unique [OF this in_hist]
  have r: "attempt_body history parse date_str a = Inr (Float (round_float c 4))"
    using assms(1-3) by (simp add: attempt_body_def Let_def)
  have "\<not> (\<forall>x\<in>fst ` set hist. d < x)" using True by auto
  with True r in_hist show ?thesis by auto
next
  case notin: False
  then have none: "filter (\<lambda>(x, c). x = d) hist = []"
    by (force simp: filter_empty_conv)
  let ?f = "filter (\<lambda>(x, c). x \<le> d) hist"
  show ?thesis
  proof (cases "?f = []")
    case True
    then have all_after: "\<forall>x\<in>fst ` set hist. d < x"
      by (auto simp: filter_empty_conv)
    have r: "attempt_body history parse date_str a
        = Inr (Float (round_float (snd (hd hist)) 4))"
      using assms(1-3) none True by (simp add: attempt_body_def Let_def)
    have "(fst (hd hist), snd (hd hist)) \<in> set hist" using assms(3) by simp
    then have "(Min (fst ` set hist), snd (hd hist)) \<in> set hist"
      using earliest [OF assms(4,3)] by simp
    with r notin all_after show ?thesis by auto
  next
    case False
    have r: "attempt_body history parse date_str a
        = Inr (Float (round_float (snd (last ?f)) 4))"
      using assms(1-3) none False by (simp add: attempt_body_def Let_def)
    have "(fst (last ?f), snd (last ?f)) \<in> set hist"
      using latest_before(1) [OF assms(4) False] by simp
    then have m: "(Max {x \<in> fst ` set hist. x \<le> d}, snd (last ?f)) \<in> set hist"
      using latest_before(2) [OF assms(4) False] by simp
    have "\<not> (\<forall>x\<in>fst ` set hist. d < x)"
    proof -
      from False obtain p where "p \<in> set hist" "fst p \<le> d"
        by (auto simp: filter_empty_conv)
      then show ?thesis by force
    qed
    with r notin m show ?thesis by auto
  qed
qed


text \<open>
  C2, as the claim states it, has the fetch return the close value itself. The code
  returns \<open>round(rate, 4)\<close>: a close of 83.12346 at the exact query date comes back as
  83.1235.
\<close>

theorem fetch_historical_inr_rate_counterexample:
  "fetch_historical_inr_rate
     (\<lambda>attempt start_date end_date. History [(19726, Some 83.05), (19727, Some 83.12346)])
     (\<lambda>s. if s = ''2024-01-05'' then Some 19727 else None) ''2024-01-05''
     = Float (Some 83.1235)
   \<and> (83.1235 :: real) \<noteq> 83.12346"
  by (simp add: fetch_historical_inr_rate_def max_retries_def attempt_body_def upt_rec
      round_float_def py_round_def round_half_even_def Let_def)

text \<open>
  C2, amended. Let the date string parse to the day \<open>d\<close>; every attempt asks the source
  for the window from \<open>d - 5\<close> to \<open>d + 1\<close>. If, after earlier attempts that raised or came
  back empty, one of the 3 attempts answers a non-empty table whose dates ascend
  strictly, the fetch returns, rounded to 4 decimal places: the close at \<open>d\<close> if the
  table has that date; otherwise the close at the latest date on or before \<open>d\<close> if there
  is one; otherwise the close at the earliest date of the table.
\<close>

theorem fetch_historical_inr_rate_selects:
  assumes "parse date_str = Some d"
    and "a < 3"
    and "\<forall>b<a. history b (d - 5) (d + 1) = HistoryRaises
              \<or> history b (d - 5) (d + 1) = History []"
    and "history a (d - 5) (d + 1) = History hist"
    and "hist \<noteq> []"
    and "sorted_wrt (<) (map fst hist)"
  shows "(d \<in> fst ` set hist \<longrightarrow>
            (\<exists>c. (d, c) \<in> set hist
               \<and> fetch_historical_inr_rate history parse date_str
                   = Float (round_float c 4)))
       \<and> (d \<notin> fst ` set hist \<and> (\<exists>x\<in>fst ` set hist. x \<le> d) \<longrightarrow>
            (\<exists>c. (Max {x \<in> fst ` set hist. x \<le> d}, c) \<in> set hist
               \<and> fetch_historical_inr_rate history parse date_str
                   = Float (round_float c 4)))
       \<and> ((\<forall>x\<in>fst ` set hist. d < x) \<longrightarrow>
            (\<exists>c. (Min (fst ` set hist), c) \<in> set hist
               \<and> fetch_historical_inr_rate history parse date_str
                   = Float (round_float c 4)))"
proof -
  have "\<exists>r. attempt_body history parse date_str a = Inr r
     \<and> (d \<in> fst ` set hist \<longrightarrow>
          (\<exists>c. (d, c) \<in> set hist \<and> r = Float (round_float c 4)))
     \<and> (d \<notin> fst ` set hist \<and> (\<exists>x\<in>fst ` set hist. x \<le> d) \<longrightarrow>
          (\<exists>c. (Max {x \<in> fst ` set hist. x \<le> d}, c) \<in> set hist
             \<and> r = Float (round_float c 4)))
     \<and> ((\<forall>x\<in>fst ` set hist. d < x) \<longrightarrow>
          (\<exists>c. (Min (fst ` set hist), c) \<in> set hist \<and> r = Float (round_float c 4)))"
    using assms(1,4,5,6) by (rule attempt_body_selects)
  then obtain r where r: "attempt_body history parse date_str a = Inr r"
    and sel: "(d \<in> fst ` set hist \<longrightarrow>
          (\<exists>c. (d, c) \<in> set hist \<and> r = Float (round_float c 4)))
     \<and> (d \<notin> fst ` set hist \<and> (\<exists>x\<in>fst ` set hist. x \<le> d) \<longrightarrow>
          (\<exists>c. (Max {x \<in> fst ` set hist. x \<le> d}, c) \<in> set hist
             \<and> r = Float (round_float c 4)))
     \<and> ((\<forall>x\<in>fst ` set hist. d < x) \<longrightarrow>
          (\<exists>c. (Min (fst ` set hist), c) \<in> set hist \<and> r = Float (round_float c 4)))"
    by blast
  have "\<forall>b<a. \<exists>e. attempt_body history parse date_str b = Inl e"
    using assms(1,3) by (blast intro: attempt_body_fails)
  with assms(2) r have "fetch_historical_inr_rate history parse date_str = r"
    unfolding fetch_historical_inr_rate_def max_retries_def
    by (intro retry_attempts_first_success) simp_all
  with sel show ?thesis by simp
qed

theorem fetch_historical_inr_rate_selects_witness:
  "fetch_historical_inr_rate
     (\<lambda>attempt start_date end_date. History [(19726, Some 83.05), (19727, Some 83.12346)])
     (\<lambda>s. if s = ''2024-01-05'' then Some 19727 else None) ''2024-01-05''
     = Float (Some 83.1235)
   \<and> fetch_historical_inr_rate
     (\<lambda>attempt start_date end_date.
        if attempt = 0 then HistoryRaises else if attempt = 1 then History []
        else History [(19726, Some 83.05), (19727, Some 83.12)])
     (\<lambda>s. if s = ''2024-01-06'' then Some 19728 else None) ''2024-01-06''
     = Float (Some 83.12)
   \<and> fetch_historical_inr_rate
     (\<lambda>attempt start_date end_date. History [(19726, Some 83.05), (19727, Some 83.12)])
     (\<lambda>s. if s = ''2024-01-03'' then Some 19725 else None) ''2024-01-03''
     = Float (Some 83.05)"
proof -
  let ?h1 = "\<lambda>(attempt::nat) (start_date::int) (end_date::int).
     History [(19726, Some 83.05), (19727, Some 83.12346)]"
  let ?h2 = "\<lambda>(attempt::nat) (start_date::int) (end_date::int).
        if attempt = 0 then HistoryRaises else if attempt = 1 then History []
        else History [(19726, Some 83.05), (19727, Some 83.12)]"
  let ?h3 = "\<lambda>(attempt::nat) (start_date::int) (end_date::int).
     History [(19726, Some 83.05), (19727, Some 83.12)]"
  let ?p1 = "\<lambda>s. if s = ''2024-01-05'' then Some (19727::int) else None"
  let ?p2 = "\<lambda>s. if s = ''2024-01-06'' then Some (19728::int) else None"
  let ?p3 = "\<lambda>s. if s = ''2024-01-03'' then Some (19725::int) else None"
  have exact: "\<exists>c. (19727, c) \<in> set [(19726::int, Some 83.05), (19727, Some (83.12346::real))]
      \<and> fetch_historical_inr_rate ?h1 ?p1 ''2024-01-05'' = Float (round_float c 4)"
    using fetch_historical_inr_rate_selects
      [of ?p1 "''2024-01-05''" 19727 0 ?h1 "[(19726, Some 83.05), (19727, Some 83.12346)]"]
    by simp
  have before: "\<exists>c. (Max {x \<in> fst ` set [(19726::int, Some (83.05::real)), (19727, Some 83.12)].
          x \<le> 19728}, c)
        \<in> set [(19726::int, Some 83.05), (19727, Some (83.12::real))]
      \<and> fetch_historical_inr_rate ?h2 ?p2 ''2024-01-06'' = Float (round_float c 4)"
    using fetch_historical_inr_rate_selects
      [of ?p2 "''2024-01-06''" 19728 2 ?h2 "[(19726, Some 83.05), (19727, Some 83.12)]"]
    by (simp add: less_Suc_eq numeral_2_eq_2)
  have first: "\<exists>c. (Min (fst ` set [(19726::int, Some (83.05::real)), (19727, Some 83.12)]), c)
        \<in> set [(19726::int, Some 83.05), (19727, Some (83.12::real))]
      \<and> fetch_historical_inr_rate ?h3 ?p3 ''2024-01-03'' = Float (round_float c 4)"
    using fetch_historical_inr_rate_selects
      [of ?p3 "''2024-01-03''" 19725 0 ?h3 "[(19726, Some 83.05), (19727, Some 83.12)]"]
    by simp
  have m: "{x \<in> fst ` set [(19726::int, Some (83.05::real)), (19727, Some 83.12)]. x \<le> 19728}
      = {19726, 19727}"
    by auto
  have r1: "round_float (Some 83.12346) 4 = Some 83.1235"
    "round_float (Some 83.12) 4 = Some 83.12" "round_float (Some 83.05) 4 = Some 83.05"
    by (simp_all add: round_float_def py_round_def round_half_even_def Let_def)
  from exact obtain c1
    where c1: "(19727, c1) \<in> set [(19726::int, Some 83.05), (19727, Some (83.12346::real))]"
      and f1: "fetch_historical_inr_rate ?h1 ?p1 ''2024-01-05'' = Float (round_float c1 4)"
    by blast
  from c1 have e1: "c1 = Some 83.12346" by simp
  from before obtain c2
    where c2: "(Max {19726, 19727}, c2)
        \<in> set [(19726::int, Some 83.05), (19727, Some (83.12::real))]"
      and f2: "fetch_historical_inr_rate ?h2 ?p2 ''2024-01-06'' = Float (round_float c2 4)"
    unfolding m by blast
  from c2 have e2: "c2 = Some 83.12" by simp
  from first obtain c3
    where c3: "(Min (fst ` set [(19726::int, Some (83.05::real)), (19727, Some 83.12)]), c3)
        \<in> set [(19726::int, Some 83.05), (19727, Some (83.12::real))]"
      and f3: "fetch_historical_inr_rate ?h3 ?p3 ''2024-01-03'' = Float (round_float c3 4)"
    by blast
  from c3 have e3: "c3 = Some 83.05" by simp
  have "fetch_historical_inr_rate ?h1 ?p1 ''2024-01-05'' = Float (Some 83.1235)"
    using f1 by (simp only: e1 r1)
  moreover have "fetch_historical_inr_rate ?h2 ?p2 ''2024-01-06'' = Float (Some 83.12)"
    using f2 by (simp only: e2 r1)
  moreover have "fetch_historical_inr_rate ?h3 ?p3 ''2024-01-03'' = Float (Some 83.05)"
    using f3 by (simp only: e3 r1)
  ultimately show ?thesis by (simp only: simp_thms)
qed




section \<open>Properties of loading the input files\<close>

text \<open>
  C7, as the claim states it, asks for a non-zero exit status on a fatal input error.
  Both programs end such a run with \<open>exit()\<close>, whose status is 0: so it is for
  Transfers.py when the input file is not found.
\<close>

theorem load_transfers_counterexample:
  "load_transfers NotFound = ([FileNotFoundMessage], Exited 0)"
  by (simp add: load_transfers_def py_exit_def)

text \<open>
  C7, amended. On a fatal input error (the input file is not found, or a required
  column is missing) each program reports the error and then terminates with exit
  status 0, with one exception: when stockprice.py does not find its input file and
  cannot write the sample file either, the exception of that write is caught by
  nothing and the process ends with status 1, after the report of the missing file.
  For missing columns, Transfers.py prints the list of the required columns that the
  table lacks, and stockprice.py prints the list of all required columns.
\<close>

theorem fatal_input_errors_exit:
  "(r = NotFound \<longrightarrow>
      load_transfers r = ([FileNotFoundMessage], Exited 0)
      \<and> read_portfolio_data r True = ([FileNotFoundMessage, CreatedSample], Exited 0)
      \<and> read_portfolio_data r False = ([FileNotFoundMessage], Exited 1))
   \<and> (r = Table columns \<and> \<not> set transfers_required_cols \<subseteq> set columns \<longrightarrow>
        snd (load_transfers r) = Exited 0
        \<and> (\<exists>missing_cols. MissingRequiredColumns missing_cols \<in> set (fst (load_transfers r))
              \<and> set missing_cols = set transfers_required_cols - set columns
              \<and> missing_cols \<noteq> []))
   \<and> (r = Table columns \<and> \<not> set portfolio_required_cols \<subseteq> set columns \<longrightarrow>
        read_portfolio_data r sample_written
          = ([ErrorReadingCSV (Some portfolio_required_cols)], Exited 0))"
proof (intro conjI impI)
  assume "r = NotFound"
  then show "load_transfers r = ([FileNotFoundMessage], Exited 0)"
    and "read_portfolio_data r True = ([FileNotFoundMessage, CreatedSample], Exited 0)"
    and "read_portfolio_data r False = ([FileNotFoundMessage], Exited 1)"
    by (simp_all add: load_transfers_def read_portfolio_data_def py_exit_def py_uncaught_def)
next
  assume a: "r = Table columns \<and> \<not> set transfers_required_cols \<subseteq> set columns"
  let ?missing = "filter (\<lambda>col. col \<notin> set columns) transfers_required_cols"
  from a have ne: "?missing \<noteq> []" by (auto simp: filter_empty_conv)
  with a have l: "load_transfers r
      = ([Loaded, MissingRequiredColumns ?missing, AvailableColumns columns], Exited 0)"
    by (simp add: load_transfers_def py_exit_def Let_def)
  then show "snd (load_transfers r) = Exited 0" by simp
  have "set ?missing = set transfers_required_cols - set columns" by auto
  with l ne
  show "\<exists>missing_cols. MissingRequiredColumns missing_cols \<in> set (fst (load_transfers r))
              \<and> set missing_cols = set transfers_required_cols - set columns
              \<and> missing_cols \<noteq> []"
    by (intro exI [of _ ?missing]) simp
next
  assume a: "r = Table columns \<and> \<not> set portfolio_required_cols \<subseteq> set columns"
  then have "\<not> list_all (\<lambda>col. col \<in> set columns) portfolio_required_cols"
    by (auto simp: list_all_iff)
  with a show "read_portfolio_data r sample_written
      = ([ErrorReadingCSV (Some portfolio_required_cols)], Exited 0)"
    by (simp add: read_portfolio_data_def py_exit_def Let_def)
qed

theorem fatal_input_errors_exit_witness:
  "load_transfers NotFound = ([FileNotFoundMessage], Exited 0)
   \<and> read_portfolio_data NotFound True = ([FileNotFoundMessage, CreatedSample], Exited 0)
   \<and> read_portfolio_data NotFound False = ([FileNotFoundMessage], Exited 1)
   \<and> load_transfers (Table [''Date'', ''Activity''])
      = ([Loaded, MissingRequiredColumns [''Cash Amount (in USD)''],
          AvailableColumns [''Date'', ''Activity'']], Exited 0)
   \<and> read_portfolio_data (Table [''ticker'', ''shares_held'']) True
      = ([ErrorReadingCSV (Some [''ticker'', ''shares_held'', ''avg_cost_usd''])], Exited 0)"
proof -
  have h1: "\<not> set transfers_required_cols \<subseteq> set [''Date'', ''Activity'']"
    by (simp add: transfers_required_cols_def)
  have h2: "\<not> set portfolio_required_cols \<subseteq> set [''ticker'', ''shares_held'']"
    by (simp add: portfolio_required_cols_def)
  from fatal_input_errors_exit [of NotFound]
  have a: "load_transfers NotFound = ([FileNotFoundMessage], Exited 0)"
    and b: "read_portfolio_data NotFound True = ([FileNotFoundMessage, CreatedSample], Exited 0)"
    and b': "read_portfolio_data NotFound False = ([FileNotFoundMessage], Exited 1)"
    by simp_all
  from fatal_input_errors_exit [of "Table [''Date'', ''Activity'']" "[''Date'', ''Activity'']"] h1
  have c: "snd (load_transfers (Table [''Date'', ''Activity''])) = Exited 0"
    by simp
  from fatal_input_errors_exit
    [of "Table [''ticker'', ''shares_held'']" "[''ticker'', ''shares_held'']" True] h2
  have d: "read_portfolio_data (Table [''ticker'', ''shares_held'']) True
      = ([ErrorReadingCSV (Some portfolio_required_cols)], Exited 0)"
    by simp
  have e: "fst (load_transfers (Table [''Date'', ''Activity'']))
      = [Loaded, MissingRequiredColumns [''Cash Amount (in USD)''],
          AvailableColumns [''Date'', ''Activity'']]"
    by (simp add: load_transfers_def transfers_required_cols_def py_exit_def)
  from c e have "load_transfers (Table [''Date'', ''Activity''])
      = ([Loaded, MissingRequiredColumns [''Cash Amount (in USD)''],
          AvailableColumns [''Date'', ''Activity'']], Exited 0)"
    by (simp add: prod_eq_iff)
  with a b b' d show ?thesis by (simp add: portfolio_required_cols_def)
qed

section \<open>Properties of the market data fetch\<close>

lemma dropna_valid:
  assumes "k \<ge> 1" and "k \<le> length (dropna close_series)"
  shows "\<exists>x. iloc_from_end (dropna close_series) k = Some x"
proof -
  from assms have "length (dropna close_series) - k < length (dropna close_series)" by simp
  then have "iloc_from_end (dropna close_series) k \<in> set (dropna close_series)"
    unfolding iloc_from_end_def by (rule nth_mem)
  then show ?thesis by (auto simp: dropna_def)
qed

text \<open>
  The multi-ticker path stores, when it stores a quote, values taken from the series
  after \<open>dropna()\<close>: both are observations that are not missing.
\<close>

lemma process_ticker_cases:
  "process_ticker data ticker_name st = mark_failed [ticker_name] st
   \<or> (\<exists>x y. process_ticker data ticker_name st
          = store_quote ticker_name (Some x) (Some y) st)"
proof -
  have valid: "\<exists>x y. iloc_from_end (dropna s) 1 = Some x \<and> iloc_from_end (dropna s) 2 = Some y"
    if "2 \<le> length (dropna s)" for s
    using dropna_valid [of 1 s] dropna_valid [of 2 s] that by auto
  show ?thesis
  proof (cases "if df_multi_index data then df_close_of data ticker_name
           else Some (df_close data)")
    case None
    then show ?thesis by (simp add: process_ticker_def)
  next
    case (Some obj)
    show ?thesis
    proof (cases obj)
      case (DataFrame rows)
      with Some show ?thesis by (simp add: process_ticker_def)
    next
      case (Series s)
      show ?thesis
      proof (cases "2 \<le> length s \<and> 2 \<le> length (dropna s)")
        case True
        with Some Series have "process_ticker data ticker_name st
            = store_quote ticker_name (iloc_from_end (dropna s) 1)
                (iloc_from_end (dropna s) 2) st"
          by (simp add: process_ticker_def Let_def)
        with valid [of s] True show ?thesis by force
      next
        case False
        with Some Series show ?thesis by (auto simp: process_ticker_def Let_def)
      qed
    qed
  qed
qed

text \<open>
  C4. The claim holds on the multi-ticker path and on the individual retry, which call
  \<open>dropna()\<close>, but not on the path of a batch of one ticker, which takes the last two
  observations as they are. For the Close series 100, 101, NaN the single-ticker path
  stores NaN as current price and 101 as previous close, where the multi-ticker path
  stores 101 and 100 for the same series.
\<close>

theorem fetch_stock_data_single_ticker_keeps_nan:
  "fetch_stock_data
     (\<lambda>batch retry_count. Returns \<lparr>df_has_close = True, df_empty = False,
        df_multi_index = False, df_close = Series [Some 100, Some 101, None],
        df_close_of = (\<lambda>t. None)\<rparr>)
     (\<lambda>t retry_count. Raises) [''AAPL''] ''AAPL''
   = Some \<lparr>current_price_usd = None, prev_close_usd = Some 101\<rparr>
   \<and> fetch_stock_data
     (\<lambda>batch retry_count. Returns \<lparr>df_has_close = True, df_empty = False,
        df_multi_index = True, df_close = DataFrame [],
        df_close_of = (\<lambda>t. if t = ''AAPL'' then Some (Series [Some 100, Some 101, None])
           else if t = ''MSFT'' then Some (Series [Some 398, None, Some 400]) else None)\<rparr>)
     (\<lambda>t retry_count. Raises) [''AAPL'', ''MSFT''] ''AAPL''
   = Some \<lparr>current_price_usd = Some 101, prev_close_usd = Some 100\<rparr>"
  by (simp add: fetch_stock_data_def fetch_stock_data_state_def batches_loop.simps
      batch_attempts.simps ticker_attempts.simps MAX_RETRIES_def BATCH_SIZE_def
      try_batch_def process_batch_def process_single_def process_ticker_def store_quote_def
      floats_of_def iloc_from_end_def log_event_def mark_failed_def dropna_def Let_def)

lemma batch_attempts_done:
  assumes "retry_count < MAX_RETRIES"
    and "try_batch download batch retry_count (log_event (Download batch) st) = Inr st2"
  shows "batch_attempts download batch retry_count st = st2"
  using assms by (subst batch_attempts.simps) (simp add: Let_def)

lemma batch_attempts_raises_again:
  assumes "Suc retry_count < MAX_RETRIES"
    and "try_batch download batch retry_count (log_event (Download batch) st) = Inl e"
  shows "batch_attempts download batch retry_count st
    = batch_attempts download batch (Suc retry_count)
        (log_event (Sleep RETRY_DELAY) (log_event (Download batch) st))"
  using assms by (subst batch_attempts.simps) (simp add: Let_def)

lemma batch_attempts_raises_last:
  assumes "Suc retry_count = MAX_RETRIES"
    and "try_batch download batch retry_count (log_event (Download batch) st) = Inl e"
  shows "batch_attempts download batch retry_count st
    = mark_failed batch (log_event (Download batch) st)"
  using assms by (subst batch_attempts.simps) (auto simp: Let_def)

lemma batch_attempts_raises_until:
  assumes "a < 3" and "\<forall>b<a. \<forall>s. \<exists>e. try_batch download batch b s = Inl e"
    and "try_batch download batch a
           (st\<lparr>trace := trace st
               @ concat (replicate a [Download batch, Sleep RETRY_DELAY])
               @ [Download batch]\<rparr>) = Inr st2"
  shows "batch_attempts download batch 0 st = st2"
proof -
  let ?s0 = "log_event (Download batch) st"
  let ?s1 = "log_event (Download batch) (log_event (Sleep RETRY_DELAY) ?s0)"
  let ?s2 = "log_event (Download batch) (log_event (Sleep RETRY_DELAY) ?s1)"
  from assms(2) have r: "\<exists>e. try_batch download batch b s = Inl e" if "b < a" for b s
    using that by blast
  from assms(1) consider "a = 0" | "a = Suc 0" | "a = Suc (Suc 0)" by linarith
  then show ?thesis
  proof cases
    case 1
    with assms(3) have "try_batch download batch 0 ?s0 = Inr st2"
      by (simp add: log_event_def)
    then show ?thesis by (simp add: batch_attempts_done MAX_RETRIES_def)
  next
    case 2
    with r [of 0 ?s0] obtain e0 where "try_batch download batch 0 ?s0 = Inl e0" by auto
    then have "batch_attempts download batch 0 st
        = batch_attempts download batch (Suc 0) (log_event (Sleep RETRY_DELAY) ?s0)"
      by (simp add: batch_attempts_raises_again MAX_RETRIES_def)
    moreover from 2 assms(3) have "try_batch download batch (Suc 0) ?s1 = Inr st2"
      by (simp add: log_event_def)
    then have "batch_attempts download batch (Suc 0) (log_event (Sleep RETRY_DELAY) ?s0)
        = st2"
      by (simp add: batch_attempts_done MAX_RETRIES_def)
    ultimately show ?thesis by simp
  next
    case 3
    with r [of 0 ?s0] obtain e0 where "try_batch download batch 0 ?s0 = Inl e0" by auto
    then have "batch_attempts download batch 0 st
        = batch_attempts download batch (Suc 0) (log_event (Sleep RETRY_DELAY) ?s0)"
      by (simp add: batch_attempts_raises_again MAX_RETRIES_def)
    moreover from 3 r [of "Suc 0" ?s1] obtain e1
      where "try_batch download batch (Suc 0) ?s1 = Inl e1"
      by auto
    then have "batch_attempts download batch (Suc 0) (log_event (Sleep RETRY_DELAY) ?s0)
        = batch_attempts download batch (Suc (Suc 0)) (log_event (Sleep RETRY_DELAY) ?s1)"
      by (simp add: batch_attempts_raises_again MAX_RETRIES_def)
    moreover from 3 assms(3) have "try_batch download batch (Suc (Suc 0)) ?s2 = Inr st2"
      by (simp add: log_event_def)
    then have "batch_attempts download batch (Suc (Suc 0))
          (log_event (Sleep RETRY_DELAY) ?s1) = st2"
      by (simp add: batch_attempts_done MAX_RETRIES_def)
    ultimately show ?thesis by simp
  qed
qed

lemma batch_attempts_all_raise:
  assumes "\<forall>b<3. \<forall>s. \<exists>e. try_batch download batch b s = Inl e"
  shows "batch_attempts download batch 0 st
    = mark_failed batch
        (st\<lparr>trace := trace st @ [Download batch, Sleep RETRY_DELAY, Download batch,
             Sleep RETRY_DELAY, Download batch]\<rparr>)"
proof -
  let ?s0 = "log_event (Download batch) st"
  let ?s1 = "log_event (Download batch) (log_event (Sleep RETRY_DELAY) ?s0)"
  let ?s2 = "log_event (Download batch) (log_event (Sleep RETRY_DELAY) ?s1)"
  from assms have r: "\<exists>e. try_batch download batch b s = Inl e" if "b < 3" for b s
    using that by blast
  from r [of 0 ?s0] obtain e0 where "try_batch download batch 0 ?s0 = Inl e0" by auto
  then have "batch_attempts download batch 0 st
      = batch_attempts download batch (Suc 0) (log_event (Sleep RETRY_DELAY) ?s0)"
    by (simp add: batch_attempts_raises_again MAX_RETRIES_def)
  moreover from r [of "Suc 0" ?s1] obtain e1
    where "try_batch download batch (Suc 0) ?s1 = Inl e1"
    by auto
  then have "batch_attempts download batch (Suc 0) (log_event (Sleep RETRY_DELAY) ?s0)
      = batch_attempts download batch (Suc (Suc 0)) (log_event (Sleep RETRY_DELAY) ?s1)"
    by (simp add: batch_attempts_raises_again MAX_RETRIES_def)
  moreover from r [of "Suc (Suc 0)" ?s2] obtain e2
    where "try_batch download batch (Suc (Suc 0)) ?s2 = Inl e2"
    by auto
  then have "batch_attempts download batch (Suc (Suc 0)) (log_event (Sleep RETRY_DELAY) ?s1)
      = mark_failed batch ?s2"
    by (simp add: batch_attempts_raises_last MAX_RETRIES_def)
  ultimately show ?thesis by (simp add: log_event_def)
qed

lemma process_batch_no_data:
  assumes "batch \<noteq> []" and "\<not> df_has_close data \<or> df_empty data"
  shows "process_batch batch data st = Inr (mark_failed batch st)"
proof (cases "length batch = 1")
  case True
  then have "batch = [hd batch]" by (cases batch) auto
  then have "mark_failed [hd batch] st = mark_failed batch st" by simp
  with True assms(2) show ?thesis
    by (auto simp: process_batch_def process_single_def)
next
  case False
  with assms(2) show ?thesis by (auto simp: process_batch_def)
qed

lemma try_batch_raises_iff:
  "(\<exists>e. try_batch download batch b s = Inl e) \<longleftrightarrow>
     download batch b = Raises
     \<or> (\<exists>data. download batch b = Returns data \<and> length batch = 1
          \<and> df_has_close data \<and> \<not> df_empty data
          \<and> 2 \<le> length (floats_of (df_close data))
          \<and> (isl (iloc_from_end (floats_of (df_close data)) 1)
             \<or> isl (iloc_from_end (floats_of (df_close data)) 2)))"
proof (cases "download batch b")
  case Raises
  then show ?thesis by (simp add: try_batch_def)
next
  case (Returns data)
  then show ?thesis
    by (auto simp: try_batch_def process_batch_def process_single_def Let_def isl_def
        split: sum.splits)
qed

text \<open>
  C5, as the claim states it, has an empty or malformed response retried like an
  exception. The code retries on an exception only: when the first download of a batch
  of two tickers returns an empty table, both tickers are marked failed after that single
  download, although the next download would have returned data.
\<close>

theorem batch_attempts_counterexample:
  "failed_tickers (batch_attempts
     (\<lambda>batch retry_count.
        if retry_count = 0
        then Returns \<lparr>df_has_close = False, df_empty = True, df_multi_index = False,
               df_close = Series [], df_close_of = (\<lambda>t. None)\<rparr>
        else Returns \<lparr>df_has_close = True, df_empty = False, df_multi_index = True,
               df_close = DataFrame [],
               df_close_of = (\<lambda>t. Some (Series [Some 100, Some 101]))\<rparr>)
     [''AAPL'', ''MSFT''] 0
     \<lparr>stock_data = Map.empty, failed_tickers = [], trace = []\<rparr>) = [''AAPL'', ''MSFT'']
   \<and> trace (batch_attempts
     (\<lambda>batch retry_count.
        if retry_count = 0
        then Returns \<lparr>df_has_close = False, df_empty = True, df_multi_index = False,
               df_close = Series [], df_close_of = (\<lambda>t. None)\<rparr>
        else Returns \<lparr>df_has_close = True, df_empty = False, df_multi_index = True,
               df_close = DataFrame [],
               df_close_of = (\<lambda>t. Some (Series [Some 100, Some 101]))\<rparr>)
     [''AAPL'', ''MSFT''] 0
     \<lparr>stock_data = Map.empty, failed_tickers = [], trace = []\<rparr>)
     = [Download [''AAPL'', ''MSFT'']]"
  by (simp add: batch_attempts.simps MAX_RETRIES_def try_batch_def process_batch_def
      log_event_def mark_failed_def Let_def)

text \<open>
  C5, amended. The combined request of a batch is retried only when the attempt raises
  an exception, after a sleep of \<open>RETRY_DELAY\<close> seconds, for at most 3 downloads in all:
  when all 3 attempts raise, the whole batch is marked failed; when an attempt ends
  without exception after fewer than 3 that raised, its result stands and no further
  download of the batch is made. An attempt raises when the download raises, or when
  the processing of the returned table raises, which is when \<open>float\<close> raises on one of
  the last two Close entries of a batch of one ticker. A table that comes back empty or
  without Close data raises nothing and is not retried: processing it marks the whole
  batch failed at once.
\<close>

theorem batch_attempts_retry_policy:
  "((\<forall>b<3. \<forall>s. \<exists>e. try_batch download batch b s = Inl e) \<longrightarrow>
      batch_attempts download batch 0 st
        = mark_failed batch
            (st\<lparr>trace := trace st @ [Download batch, Sleep RETRY_DELAY, Download batch,
                 Sleep RETRY_DELAY, Download batch]\<rparr>))
   \<and> (a < 3 \<and> (\<forall>b<a. \<forall>s. \<exists>e. try_batch download batch b s = Inl e)
        \<and> try_batch download batch a
            (st\<lparr>trace := trace st
                @ concat (replicate a [Download batch, Sleep RETRY_DELAY])
                @ [Download batch]\<rparr>) = Inr st2 \<longrightarrow>
      batch_attempts download batch 0 st = st2)
   \<and> ((\<exists>e. try_batch download batch a s = Inl e) \<longleftrightarrow>
        download batch a = Raises
        \<or> (\<exists>data. download batch a = Returns data \<and> length batch = 1
             \<and> df_has_close data \<and> \<not> df_empty data
             \<and> 2 \<le> length (floats_of (df_close data))
             \<and> (isl (iloc_from_end (floats_of (df_close data)) 1)
                \<or> isl (iloc_from_end (floats_of (df_close data)) 2))))
   \<and> (batch \<noteq> [] \<and> download batch a = Returns data
        \<and> (\<not> df_has_close data \<or> df_empty data) \<longrightarrow>
      try_batch download batch a s = Inr (mark_failed batch s))"
proof (intro conjI impI)
  assume "\<forall>b<3. \<forall>s. \<exists>e. try_batch download batch b s = Inl e"
  then show "batch_attempts download batch 0 st
        = mark_failed batch
            (st\<lparr>trace := trace st @ [Download batch, Sleep RETRY_DELAY, Download batch,
                 Sleep RETRY_DELAY, Download batch]\<rparr>)"
    by (rule batch_attempts_all_raise)
next
  assume "a < 3 \<and> (\<forall>b<a. \<forall>s. \<exists>e. try_batch download batch b s = Inl e)
        \<and> try_batch download batch a
            (st\<lparr>trace := trace st
                @ concat (replicate a [Download batch, Sleep RETRY_DELAY])
                @ [Download batch]\<rparr>) = Inr st2"
  then have "a < 3" and "\<forall>b<a. \<forall>s. \<exists>e. try_batch download batch b s = Inl e"
    and "try_batch download batch a
            (st\<lparr>trace := trace st
                @ concat (replicate a [Download batch, Sleep RETRY_DELAY])
                @ [Download batch]\<rparr>) = Inr st2"
    by simp_all
  then show "batch_attempts download batch 0 st = st2"
    by (rule batch_attempts_raises_until)
next
  show "(\<exists>e. try_batch download batch a s = Inl e) \<longleftrightarrow>
        download batch a = Raises
        \<or> (\<exists>data. download batch a = Returns data \<and> length batch = 1
             \<and> df_has_close data \<and> \<not> df_empty data
             \<and> 2 \<le> length (floats_of (df_close data))
             \<and> (isl (iloc_from_end (floats_of (df_close data)) 1)
                \<or> isl (iloc_from_end (floats_of (df_close data)) 2)))"
    by (rule try_batch_raises_iff)
next
  assume "batch \<noteq> [] \<and> download batch a = Returns data
        \<and> (\<not> df_has_close data \<or> df_empty data)"
  then have "batch \<noteq> []" and "download batch a = Returns data"
    and "\<not> df_has_close data \<or> df_empty data"
    by simp_all
  then show "try_batch download batch a s = Inr (mark_failed batch s)"
    by (simp add: try_batch_def process_batch_no_data)
qed

theorem batch_attempts_retry_policy_witness:
  "batch_attempts
     (\<lambda>batch retry_count.
        Returns \<lparr>df_has_close = True, df_empty = False, df_multi_index = True,
               df_close = DataFrame [Inl TypeError, Inl TypeError],
               df_close_of = (\<lambda>t. Some (Series [Some 100, Some 101]))\<rparr>)
     [''AAPL''] 0
     \<lparr>stock_data = Map.empty, failed_tickers = [], trace = []\<rparr>
   = \<lparr>stock_data = Map.empty, failed_tickers = [''AAPL''],
      trace = [Download [''AAPL''], Sleep 2, Download [''AAPL''],
               Sleep 2, Download [''AAPL'']]\<rparr>
   \<and> batch_attempts
     (\<lambda>batch retry_count.
        if retry_count = 0 then Raises
        else Returns \<lparr>df_has_close = True, df_empty = False, df_multi_index = True,
               df_close = DataFrame [],
               df_close_of = (\<lambda>t. Some (Series [Some 100, Some 101]))\<rparr>)
     [''AAPL'', ''MSFT''] 0
     \<lparr>stock_data = Map.empty, failed_tickers = [], trace = []\<rparr>
   = \<lparr>stock_data =
        [''AAPL'' \<mapsto> \<lparr>current_price_usd = Some 101, prev_close_usd = Some 100\<rparr>,
         ''MSFT'' \<mapsto> \<lparr>current_price_usd = Some 101, prev_close_usd = Some 100\<rparr>],
      failed_tickers = [],
      trace = [Download [''AAPL'', ''MSFT''], Sleep 2, Download [''AAPL'', ''MSFT'']]\<rparr>
   \<and> try_batch
     (\<lambda>batch retry_count.
        Returns \<lparr>df_has_close = False, df_empty = True, df_multi_index = False,
               df_close = Series [], df_close_of = (\<lambda>t. None)\<rparr>)
     [''AAPL'', ''MSFT''] 0
     \<lparr>stock_data = Map.empty, failed_tickers = [], trace = []\<rparr>
   = Inr \<lparr>stock_data = Map.empty, failed_tickers = [''AAPL'', ''MSFT''], trace = []\<rparr>"
proof -
  let ?one = "[''AAPL'']"
  let ?batch = "[''AAPL'', ''MSFT'']"
  let ?st = "\<lparr>stock_data = Map.empty, failed_tickers = [], trace = []\<rparr>"
  let ?rows = "\<lparr>df_has_close = True, df_empty = False, df_multi_index = True,
               df_close = DataFrame [Inl TypeError, Inl TypeError],
               df_close_of = (\<lambda>t::string. Some (Series [Some 100, Some 101]))\<rparr>"
  let ?good = "\<lparr>df_has_close = True, df_empty = False, df_multi_index = True,
               df_close = DataFrame [],
               df_close_of = (\<lambda>t::string. Some (Series [Some 100, Some 101]))\<rparr>"
  let ?none = "\<lparr>df_has_close = False, df_empty = True, df_multi_index = False,
               df_close = Series [], df_close_of = (\<lambda>t::string. None)\<rparr>"
  let ?d1 = "\<lambda>(batch::string list) (retry_count::nat). Returns ?rows"
  let ?d2 = "\<lambda>(batch::string list) (retry_count::nat).
        if retry_count = 0 then Raises else Returns ?good"
  let ?d3 = "\<lambda>(batch::string list) (retry_count::nat). Returns ?none"
  let ?result = "\<lparr>stock_data =
        [''AAPL'' \<mapsto> \<lparr>current_price_usd = Some 101, prev_close_usd = Some 100\<rparr>,
         ''MSFT'' \<mapsto> \<lparr>current_price_usd = Some 101, prev_close_usd = Some (100::real)\<rparr>],
      failed_tickers = [],
      trace = [Download ?batch, Sleep 2, Download ?batch]\<rparr>"
  have h1: "\<forall>b<3. \<forall>s. \<exists>e. try_batch ?d1 ?one b s = Inl e"
    by (simp add: try_batch_def process_batch_def process_single_def floats_of_def
        iloc_from_end_def)
  from batch_attempts_retry_policy [of ?d1 ?one ?st] h1
  have a: "batch_attempts ?d1 ?one 0 ?st
        = mark_failed ?one
            (?st\<lparr>trace := trace ?st @ [Download ?one, Sleep RETRY_DELAY, Download ?one,
                 Sleep RETRY_DELAY, Download ?one]\<rparr>)"
    by blast
  have h2: "Suc 0 < 3 \<and> (\<forall>b<Suc 0. \<forall>s. \<exists>e. try_batch ?d2 ?batch b s = Inl e)
      \<and> try_batch ?d2 ?batch (Suc 0)
          (?st\<lparr>trace := trace ?st
              @ concat (replicate (Suc 0) [Download ?batch, Sleep RETRY_DELAY])
              @ [Download ?batch]\<rparr>) = Inr ?result"
    by (simp add: try_batch_def process_batch_def process_ticker_def store_quote_def
        iloc_from_end_def dropna_def RETRY_DELAY_def Let_def)
  from batch_attempts_retry_policy [of ?d2 ?batch ?st "Suc 0" ?result] h2
  have b: "batch_attempts ?d2 ?batch 0 ?st = ?result"
    by blast
  have h3: "?batch \<noteq> [] \<and> ?d3 ?batch 0 = Returns ?none
      \<and> (\<not> df_has_close ?none \<or> df_empty ?none)"
    by simp
  from batch_attempts_retry_policy [of ?d3 ?batch ?st 0 _ ?st ?none] h3
  have c: "try_batch ?d3 ?batch 0 ?st = Inr (mark_failed ?batch ?st)"
    by blast
  from a have a': "batch_attempts ?d1 ?one 0 ?st
      = \<lparr>stock_data = Map.empty, failed_tickers = ?one,
      trace = [Download ?one, Sleep 2, Download ?one, Sleep 2, Download ?one]\<rparr>"
    by (simp add: mark_failed_def RETRY_DELAY_def)
  from c have c': "try_batch ?d3 ?batch 0 ?st
      = Inr \<lparr>stock_data = Map.empty, failed_tickers = ?batch, trace = []\<rparr>"
    by (simp add: mark_failed_def)
  from a' b c' show ?thesis by (simp only: simp_thms)
qed


end
